theory Spec2Isabelle
  imports Complex_Main "HOL-Library.Multiset" "HOL-Library.Char_ord" "HOL-Library.List_Lexorder"
    "HOL-Library.Product_Lexorder"
begin

section \<open>Query objects\<close>

text \<open>
  The \<^verbatim>\<open>req.query\<close> object that Express hands to a handler maps parameter names to
  values. A value parsed from a query string is a string (possibly empty, as in
  \<^verbatim>\<open>?region=\<close>), an array (\<^verbatim>\<open>?region=a&region=b\<close>) or a nested object
  (\<^verbatim>\<open>?region[x]=a\<close>); a name that does not occur reads as \<^verbatim>\<open>undefined\<close>, which is
  \<open>None\<close> here.
\<close>

datatype qsval = QStr string | QArr "qsval list" | QObj "(string \<times> qsval) list"

type_synonym query = "string \<rightharpoonup> qsval"

text \<open>JavaScript truthiness of such a value: only the empty string is falsy.\<close>

fun truthy :: "qsval \<Rightarrow> bool" where
  "truthy (QStr s) = (s \<noteq> [])"
| "truthy (QArr xs) = True"
| "truthy (QObj kvs) = True"

text \<open>
  The guard \<^verbatim>\<open>query.region && query.region !== 'All'\<close>, for the value read from the
  query object. The strict inequality holds for every array and object.
\<close>

definition selected :: "qsval option \<Rightarrow> bool" where
  "selected v = (case v of None \<Rightarrow> False | Some x \<Rightarrow> truthy x \<and> x \<noteq> QStr ''All'')"

text \<open>\<^verbatim>\<open>Array.prototype.join\<close> on an array of strings.\<close>

fun join :: "string \<Rightarrow> string list \<Rightarrow> string" where
  "join sep [] = []"
| "join sep [x] = x"
| "join sep (x # y # ys) = x @ sep @ join sep (y # ys)"

section \<open>The filter builder\<close>

text \<open>
  One \<^verbatim>\<open>if (...) { filters.push(fragment); params.push(query.key); }\<close> block of
  \<^verbatim>\<open>buildFilter\<close>, acting on the two local arrays.
\<close>

definition push_filter ::
  "query \<Rightarrow> string \<Rightarrow> string \<Rightarrow> string list \<times> qsval list \<Rightarrow> string list \<times> qsval list" where
  "push_filter query key fragment acc =
     (case query key of
        None \<Rightarrow> acc
      | Some v \<Rightarrow>
          if truthy v \<and> v \<noteq> QStr ''All''
          then (fst acc @ [fragment], snd acc @ [v])
          else acc)"

definition buildFilter :: "query \<Rightarrow> string \<times> qsval list" where
  "buildFilter query =
     (let acc0 = ([], []);
          acc1 = push_filter query ''region'' ''region = ?'' acc0;
          acc2 = push_filter query ''product'' ''product_name = ?'' acc1;
          acc3 = push_filter query ''channel'' ''sales_channel = ?'' acc2;
          acc4 = push_filter query ''category'' ''product_category = ?'' acc3;
          filters = fst acc4;
          params = snd acc4;
          whereClause = (if length filters > 0 then ''WHERE '' @ join '' AND '' filters else [])
      in (whereClause, params))"

text \<open>
  The recognised parameters with their predicate fragments, in the order in which
  \<^verbatim>\<open>buildFilter\<close> looks at them.
\<close>

definition recognized :: "(string \<times> string) list" where
  "recognized =
     [(''region'', ''region = ?''), (''product'', ''product_name = ?''),
      (''channel'', ''sales_channel = ?''), (''category'', ''product_category = ?'')]"

text \<open>
  The parameter list as the specification words it: the values of the recognised
  parameters that are present and not \<^verbatim>\<open>'All'\<close>, in the fixed order.
\<close>

definition spec_params :: "query \<Rightarrow> qsval list" where
  "spec_params query =
     concat (map (\<lambda>(key, fragment).
                    case query key of
                      None \<Rightarrow> []
                    | Some v \<Rightarrow> if v \<noteq> QStr ''All'' then [v] else [])
                 recognized)"

text \<open>
  The same lists restricted by the guard the code applies: present, truthy and
  not \<^verbatim>\<open>'All'\<close>.
\<close>

definition selected_params :: "query \<Rightarrow> qsval list" where
  "selected_params query =
     concat (map (\<lambda>(key, fragment).
                    case query key of
                      None \<Rightarrow> []
                    | Some v \<Rightarrow> if selected (Some v) then [v] else [])
                 recognized)"

definition selected_fragments :: "query \<Rightarrow> string list" where
  "selected_fragments query =
     map snd (filter (\<lambda>(key, fragment). selected (query key)) recognized)"

definition placeholders :: "string \<Rightarrow> nat" where
  "placeholders s = count_list s (CHR ''?'')"

section \<open>Values delivered by the database driver\<close>

text \<open>
  A JavaScript number is \<open>NaN\<close>, an infinity, or a finite double, held as the rational
  that the double denotes. The arithmetic on doubles, with its rounding, is not defined
  here: it is the runtime's, a parameter of the model (below).
\<close>

datatype number = NaN | Fin rat | PosInf | NegInf

datatype jsval = Undefined | Null | Number number | Str string

text \<open>A result row is an object keyed by column name; a missing property reads \<open>Undefined\<close>.\<close>

type_synonym row = "string \<rightharpoonup> jsval"

definition field :: "row \<Rightarrow> string \<Rightarrow> jsval" where
  "field r name = (case r name of None \<Rightarrow> Undefined | Some v \<Rightarrow> v)"

text \<open>
  The JavaScript runtime is not part of this program. What the program uses of it is a
  parameter of the model: the global functions \<^verbatim>\<open>parseFloat\<close> and \<^verbatim>\<open>parseInt\<close>, the
  conversion of a string operand to a number, the operators \<^verbatim>\<open>-\<close>, \<^verbatim>\<open>/\<close> and \<^verbatim>\<open>*\<close> on
  numbers (IEEE double arithmetic), and \<^verbatim>\<open>Number.prototype.toFixed\<close>.
\<close>

record runtime =
  parseFloat :: "jsval \<Rightarrow> number"
  parseInt :: "jsval \<Rightarrow> number"
  stringToNumber :: "string \<Rightarrow> number"
  float_sub :: "number \<Rightarrow> number \<Rightarrow> number"
  float_div :: "number \<Rightarrow> number \<Rightarrow> number"
  float_mul :: "number \<Rightarrow> number \<Rightarrow> number"
  toFixed :: "number \<Rightarrow> nat \<Rightarrow> string"

definition toNumber :: "runtime \<Rightarrow> jsval \<Rightarrow> number" where
  "toNumber rt v =
     (case v of
        Undefined \<Rightarrow> NaN
      | Null \<Rightarrow> Fin 0
      | Number n \<Rightarrow> n
      | Str s \<Rightarrow> stringToNumber rt s)"

fun js_truthy :: "jsval \<Rightarrow> bool" where
  "js_truthy Undefined = False"
| "js_truthy Null = False"
| "js_truthy (Number NaN) = False"
| "js_truthy (Number (Fin r)) = (r \<noteq> 0)"
| "js_truthy (Number PosInf) = True"
| "js_truthy (Number NegInf) = True"
| "js_truthy (Str s) = (s \<noteq> [])"

text \<open>The operator \<^verbatim>\<open>a || b\<close>.\<close>

definition js_or :: "jsval \<Rightarrow> jsval \<Rightarrow> jsval" where
  "js_or a b = (if js_truthy a then a else b)"

text \<open>The comparison \<^verbatim>\<open>a > b\<close> of two numbers, which is exact; with \<open>NaN\<close> it is false.\<close>

fun num_gt :: "number \<Rightarrow> number \<Rightarrow> bool" where
  "num_gt (Fin a) (Fin b) = (b < a)"
| "num_gt PosInf (Fin b) = True"
| "num_gt PosInf NegInf = True"
| "num_gt (Fin a) NegInf = True"
| "num_gt _ _ = False"


section \<open>The growth figure\<close>

text \<open>
  Lines 108 to 116 of the handler of \<^verbatim>\<open>/api/kpis\<close>: the growth computed from the rows of
  the monthly-revenue statement.
\<close>

definition growth_of :: "runtime \<Rightarrow> row list \<Rightarrow> number" where
  "growth_of rt growthResults =
     (if 2 \<le> length growthResults then
        (let firstMonthRev = field (growthResults ! 0) ''monthly_revenue'';
             lastMonthRev = field (growthResults ! (length growthResults - 1)) ''monthly_revenue''
         in if num_gt (toNumber rt firstMonthRev) (Fin 0)
            then parseFloat rt
                   (Str (toFixed rt
                      (float_mul rt
                         (float_div rt
                            (float_sub rt (toNumber rt lastMonthRev) (toNumber rt firstMonthRev))
                            (toNumber rt firstMonthRev))
                         (Fin 100))
                      1))
            else Fin 0)
      else Fin 0)"

text \<open>
  The percentage change from one monthly revenue to another, as line 114 computes it:
  \<^verbatim>\<open>parseFloat((((b - a) / a) * 100).toFixed(1))\<close>.
\<close>

definition pct_change :: "runtime \<Rightarrow> jsval \<Rightarrow> jsval \<Rightarrow> number" where
  "pct_change rt a b =
     parseFloat rt
       (Str (toFixed rt
          (float_mul rt
             (float_div rt (float_sub rt (toNumber rt b) (toNumber rt a)) (toNumber rt a))
             (Fin 100))
          1))"

text \<open>
  The growth figure as the specification words it: the change from one month to the
  immediately following month. \<open>spec_month_over_month\<close> lists that change for every pair
  of consecutive rows of the monthly-revenue result.
\<close>

definition spec_month_over_month :: "runtime \<Rightarrow> row list \<Rightarrow> number list" where
  "spec_month_over_month rt growthResults =
     map (\<lambda>(r, r'). pct_change rt (field r ''monthly_revenue'') (field r' ''monthly_revenue''))
         (zip growthResults (tl growthResults))"

section \<open>The query executor\<close>

text \<open>
  The driver (\<^verbatim>\<open>mysql2/promise\<close>) and the database behind it are external. They are a
  parameter: a state of type \<open>'s\<close> and three operations on it. A rejected promise is
  \<open>Inl\<close> of the error's message; a connection is a handle.
\<close>

record 's mysql =
  createConnection :: "'s \<Rightarrow> (string + nat) \<times> 's"
  execute :: "nat \<Rightarrow> string \<Rightarrow> qsval list \<Rightarrow> 's \<Rightarrow> (string + row list) \<times> 's"
  conn_end :: "nat \<Rightarrow> 's \<Rightarrow> 's"

text \<open>
  What a call of \<^verbatim>\<open>queryDatabase\<close> does, in order: a connection acquired or refused,
  a line on the console, the call of \<^verbatim>\<open>connection.execute\<close> (whether it then succeeds or
  fails), the call of \<^verbatim>\<open>connection.end\<close>.
\<close>

datatype event =
    Acquired nat
  | AcquireFailed string
  | ConsoleLog string
  | Executed nat string "qsval list"
  | ConsoleError string
  | Ended nat

definition nl :: string where
  "nl = [CHR 0x0A]"

definition log_line :: "string \<Rightarrow> string" where
  "log_line sql =
     ''Executing SQL: '' @ map (\<lambda>c. if c = CHR 0x0A then CHR '' '' else c) (take 80 sql) @ ''...''"

definition error_line :: "string \<Rightarrow> string" where
  "error_line message = ''CRITICAL: Database Query Error: '' @ message"

definition failed_message :: string where
  "failed_message = ''Failed to fetch data from MySQL. Check database connection and SQL syntax.''"

text \<open>
  \<^verbatim>\<open>queryDatabase\<close>: the result is the rows, or the message of the error it throws; with
  it come the events of the call and the driver's new state. The \<^verbatim>\<open>finally\<close> block runs
  before the function returns or throws, and ends the connection when there is one.
\<close>

definition queryDatabase ::
  "'s mysql \<Rightarrow> string \<Rightarrow> qsval list \<Rightarrow> 's \<Rightarrow> (string + row list) \<times> event list \<times> 's" where
  "queryDatabase m sql params s =
     (case createConnection m s of
        (Inl err, s1) \<Rightarrow>
          (Inl failed_message, [AcquireFailed err, ConsoleError (error_line err)], s1)
      | (Inr connection, s1) \<Rightarrow>
          (case execute m connection sql params s1 of
             (Inl err, s2) \<Rightarrow>
               (Inl failed_message,
                [Acquired connection, ConsoleLog (log_line sql), Executed connection sql params,
                 ConsoleError (error_line err), Ended connection],
                conn_end m connection s2)
           | (Inr rows, s2) \<Rightarrow>
               (Inr rows,
                [Acquired connection, ConsoleLog (log_line sql), Executed connection sql params,
                 Ended connection],
                conn_end m connection s2)))"

definition acquired :: "event list \<Rightarrow> nat" where
  "acquired evs = length (filter (\<lambda>e. case e of Acquired c \<Rightarrow> True | _ \<Rightarrow> False) evs)"

definition attempts :: "event list \<Rightarrow> nat" where
  "attempts evs =
     length (filter (\<lambda>e. case e of Acquired c \<Rightarrow> True | AcquireFailed err \<Rightarrow> True | _ \<Rightarrow> False) evs)"

definition ended :: "event list \<Rightarrow> nat" where
  "ended evs = length (filter (\<lambda>e. case e of Ended c \<Rightarrow> True | _ \<Rightarrow> False) evs)"

text \<open>The events of a call or of a request.\<close>

abbreviation events :: "'a \<times> event list \<times> 's \<Rightarrow> event list" where
  "events r \<equiv> fst (snd r)"

section \<open>The statements\<close>

definition kpis_sql :: "string \<Rightarrow> string" where
  "kpis_sql whereClause =
     nl @
     ''            SELECT '' @ nl @
     ''                SUM(revenue) AS revenue, '' @ nl @
     ''                COUNT(order_id) AS orders, '' @ nl @
     ''                COUNT(DISTINCT customer_id) AS customers'' @ nl @
     ''            FROM sales_data'' @ nl @
     ''            '' @ whereClause @ '';'' @ nl @
     ''        ''"

definition growth_sql :: "string \<Rightarrow> string" where
  "growth_sql whereClause =
     nl @
     ''            SELECT '' @ nl @
     ''                DATE_FORMAT(order_date, '%Y-%m') AS month_year, '' @ nl @
     ''                SUM(revenue) AS monthly_revenue'' @ nl @
     ''            FROM sales_data'' @ nl @
     ''            '' @ whereClause @ nl @
     ''            GROUP BY month_year'' @ nl @
     ''            ORDER BY month_year ASC;'' @ nl @
     ''        ''"

definition sales_sql :: "string \<Rightarrow> string" where
  "sales_sql whereClause =
     nl @
     ''            SELECT '' @ nl @
     ''                DATE_FORMAT(order_date, '%b') AS label, '' @ nl @
     ''                SUM(revenue) AS value,'' @ nl @
     ''                DATE_FORMAT(order_date, '%Y-%m') AS sort_order'' @ nl @
     ''            FROM sales_data'' @ nl @
     ''            '' @ whereClause @ nl @
     ''            GROUP BY label, sort_order'' @ nl @
     ''            ORDER BY sort_order;'' @ nl @
     ''        ''"

definition products_sql :: "string \<Rightarrow> string" where
  "products_sql whereClause =
     nl @
     ''            SELECT '' @ nl @
     ''                product_name AS label, '' @ nl @
     ''                SUM(revenue) AS value'' @ nl @
     ''            FROM sales_data'' @ nl @
     ''            '' @ whereClause @ nl @
     ''            GROUP BY product_name'' @ nl @
     ''            ORDER BY value DESC'' @ nl @
     ''            LIMIT 5;'' @ nl @
     ''        ''"

definition regions_sql :: "string \<Rightarrow> string" where
  "regions_sql whereClause =
     nl @
     ''            SELECT '' @ nl @
     ''                region AS label, '' @ nl @
     ''                SUM(revenue) AS value'' @ nl @
     ''            FROM sales_data'' @ nl @
     ''            '' @ whereClause @ nl @
     ''            GROUP BY region;'' @ nl @
     ''        ''"

definition channels_sql :: "string \<Rightarrow> string" where
  "channels_sql whereClause =
     nl @
     ''            SELECT '' @ nl @
     ''                sales_channel AS label, '' @ nl @
     ''                SUM(revenue) AS value'' @ nl @
     ''            FROM sales_data'' @ nl @
     ''            '' @ whereClause @ nl @
     ''            GROUP BY sales_channel'' @ nl @
     ''            ORDER BY value DESC;'' @ nl @
     ''        ''"

definition tiers_sql :: "string \<Rightarrow> string" where
  "tiers_sql whereClause =
     nl @
     ''            SELECT '' @ nl @
     ''                customer_tier AS label, '' @ nl @
     ''                SUM(revenue) AS value'' @ nl @
     ''            FROM sales_data'' @ nl @
     ''            '' @ whereClause @ nl @
     ''            GROUP BY customer_tier'' @ nl @
     ''            ORDER BY FIELD(customer_tier, 'Platinum', 'Gold', 'Silver', 'Bronze');'' @ nl @
     ''        ''"

definition metadata_regions_sql :: string where
  "metadata_regions_sql = ''SELECT DISTINCT region FROM sales_data ORDER BY region;''"

definition metadata_products_sql :: string where
  "metadata_products_sql = ''SELECT DISTINCT product_name FROM sales_data ORDER BY product_name;''"

definition metadata_channels_sql :: string where
  "metadata_channels_sql = ''SELECT DISTINCT sales_channel FROM sales_data ORDER BY sales_channel;''"

definition metadata_categories_sql :: string where
  "metadata_categories_sql =
     ''SELECT DISTINCT product_category FROM sales_data ORDER BY product_category;''"

section \<open>The endpoint handlers\<close>

text \<open>
  The body passed to \<^verbatim>\<open>res.json\<close>: the chart payload \<^verbatim>\<open>{labels, data}\<close>, the flat KPI
  object, the metadata lists \<^verbatim>\<open>{regions, products, channels, categories}\<close>, or, with
  status 500, \<^verbatim>\<open>{message}\<close>.
\<close>

datatype response =
    Chart "jsval list" "number list"
  | Kpis "string \<rightharpoonup> jsval"
  | Metadata "jsval list" "jsval list" "jsval list" "jsval list"
  | ServerError string

text \<open>
  With no row, \<^verbatim>\<open>results[0]\<close> is \<^verbatim>\<open>undefined\<close> and reading \<^verbatim>\<open>kpis.revenue\<close> throws a
  TypeError, whose message (the one of Node.js 16.9 and later) reaches the client.
\<close>

definition undefined_read_message :: string where
  "undefined_read_message =
     ''Cannot read properties of undefined (reading '' @ [CHR 0x27] @ ''revenue'' @ [CHR 0x27] @ '')''"

definition api_kpis ::
  "runtime \<Rightarrow> 's mysql \<Rightarrow> query \<Rightarrow> 's \<Rightarrow> response \<times> event list \<times> 's" where
  "api_kpis rt m query s =
     (case buildFilter query of
        (whereClause, params) \<Rightarrow>
          (case queryDatabase m (kpis_sql whereClause) params s of
             (Inl message, evs1, s1) \<Rightarrow> (ServerError message, evs1, s1)
           | (Inr results, evs1, s1) \<Rightarrow>
               (case queryDatabase m (growth_sql whereClause) params s1 of
                  (Inl message, evs2, s2) \<Rightarrow> (ServerError message, evs1 @ evs2, s2)
                | (Inr growthResults, evs2, s2) \<Rightarrow>
                    (let growth = growth_of rt growthResults
                     in case results of
                          [] \<Rightarrow> (ServerError undefined_read_message, evs1 @ evs2, s2)
                        | kpis # rest \<Rightarrow>
                            (Kpis (kpis ++
                               [''growth'' \<mapsto> Number growth,
                                ''revenue'' \<mapsto>
                                  Number (parseFloat rt (js_or (field kpis ''revenue'') (Number (Fin 0)))),
                                ''customers'' \<mapsto>
                                  Number (parseInt rt (js_or (field kpis ''customers'') (Number (Fin 0)))),
                                ''orders'' \<mapsto>
                                  Number (parseInt rt (js_or (field kpis ''orders'') (Number (Fin 0))))]),
                             evs1 @ evs2, s2)))))"

text \<open>
  The five chart handlers (\<^verbatim>\<open>/api/sales\<close>, \<^verbatim>\<open>/api/products\<close>, \<^verbatim>\<open>/api/regions\<close>,
  \<^verbatim>\<open>/api/channels\<close>, \<^verbatim>\<open>/api/tiers\<close>) have the same text and differ in the statement
  only: \<open>chart_handler\<close> is that text, \<open>chart_response\<close> its reshaping of the rows.
\<close>

definition chart_response :: "runtime \<Rightarrow> row list \<Rightarrow> response" where
  "chart_response rt results =
     (let labels = map (\<lambda>row. field row ''label'') results;
          data = map (\<lambda>row. parseFloat rt (field row ''value'')) results
      in Chart labels data)"

definition chart_handler ::
  "(string \<Rightarrow> string) \<Rightarrow> runtime \<Rightarrow> 's mysql \<Rightarrow> query \<Rightarrow> 's \<Rightarrow> response \<times> event list \<times> 's" where
  "chart_handler statement rt m query s =
     (case buildFilter query of
        (whereClause, params) \<Rightarrow>
          (case queryDatabase m (statement whereClause) params s of
             (Inl message, evs, s1) \<Rightarrow> (ServerError message, evs, s1)
           | (Inr results, evs, s1) \<Rightarrow> (chart_response rt results, evs, s1)))"

definition api_sales ::
  "runtime \<Rightarrow> 's mysql \<Rightarrow> query \<Rightarrow> 's \<Rightarrow> response \<times> event list \<times> 's" where
  "api_sales = chart_handler sales_sql"

definition api_products ::
  "runtime \<Rightarrow> 's mysql \<Rightarrow> query \<Rightarrow> 's \<Rightarrow> response \<times> event list \<times> 's" where
  "api_products = chart_handler products_sql"

definition api_regions ::
  "runtime \<Rightarrow> 's mysql \<Rightarrow> query \<Rightarrow> 's \<Rightarrow> response \<times> event list \<times> 's" where
  "api_regions = chart_handler regions_sql"

definition api_channels ::
  "runtime \<Rightarrow> 's mysql \<Rightarrow> query \<Rightarrow> 's \<Rightarrow> response \<times> event list \<times> 's" where
  "api_channels = chart_handler channels_sql"

definition api_tiers ::
  "runtime \<Rightarrow> 's mysql \<Rightarrow> query \<Rightarrow> 's \<Rightarrow> response \<times> event list \<times> 's" where
  "api_tiers = chart_handler tiers_sql"

text \<open>The chart endpoints, each with its statement.\<close>

definition chart_endpoints ::
  "((runtime \<Rightarrow> 's mysql \<Rightarrow> query \<Rightarrow> 's \<Rightarrow> response \<times> event list \<times> 's) \<times>
    (string \<Rightarrow> string)) list" where
  "chart_endpoints =
     [(api_sales, sales_sql), (api_products, products_sql), (api_regions, regions_sql),
      (api_channels, channels_sql), (api_tiers, tiers_sql)]"

text \<open>\<^verbatim>\<open>/api/metadata\<close>: four statements, one after the other, none with parameters.\<close>

definition api_metadata :: "'s mysql \<Rightarrow> 's \<Rightarrow> response \<times> event list \<times> 's" where
  "api_metadata m s =
     (case queryDatabase m metadata_regions_sql [] s of
        (Inl message, evs1, s1) \<Rightarrow> (ServerError message, evs1, s1)
      | (Inr regions, evs1, s1) \<Rightarrow>
     (case queryDatabase m metadata_products_sql [] s1 of
        (Inl message, evs2, s2) \<Rightarrow> (ServerError message, evs1 @ evs2, s2)
      | (Inr products, evs2, s2) \<Rightarrow>
     (case queryDatabase m metadata_channels_sql [] s2 of
        (Inl message, evs3, s3) \<Rightarrow> (ServerError message, evs1 @ evs2 @ evs3, s3)
      | (Inr channels, evs3, s3) \<Rightarrow>
     (case queryDatabase m metadata_categories_sql [] s3 of
        (Inl message, evs4, s4) \<Rightarrow> (ServerError message, evs1 @ evs2 @ evs3 @ evs4, s4)
      | (Inr categories, evs4, s4) \<Rightarrow>
          (Metadata (map (\<lambda>r. field r ''region'') regions)
                    (map (\<lambda>p. field p ''product_name'') products)
                    (map (\<lambda>c. field c ''sales_channel'') channels)
                    (map (\<lambda>c. field c ''product_category'') categories),
           evs1 @ evs2 @ evs3 @ evs4, s4)))))"

section \<open>The database engine\<close>

text \<open>
  The database engine is external to the program, which hands it the text of a statement
  and the parameters. To say what the program's statements return, the engine is modelled
  by an evaluator of the fragment of SQL in which those statements are written. It reads
  the text of the statement: a lexer, a parser, and an evaluation on the table.

  The table \<^verbatim>\<open>sales_data\<close> is not part of the repository. A record of it has the columns
  that the statements name; no column is \<^verbatim>\<open>NULL\<close>; a date is held in the form
  \<^verbatim>\<open>YYYY-MM-DD\<close>; the revenue is an exact decimal; text compares byte by byte (a binary
  collation).
\<close>

record sale =
  order_id :: nat
  order_date :: string
  customer_id :: nat
  customer_tier :: string
  region :: string
  product_name :: string
  product_category :: string
  sales_channel :: string
  revenue :: rat

subsection \<open>Lexer\<close>

datatype token = Word string | Quoted string | Sym char

definition is_space :: "char \<Rightarrow> bool" where
  "is_space c \<longleftrightarrow> c = CHR '' '' \<or> c = CHR 0x0A \<or> c = CHR 0x09 \<or> c = CHR 0x0D"

definition is_sym :: "char \<Rightarrow> bool" where
  "is_sym c \<longleftrightarrow> c = CHR ''('' \<or> c = CHR '')'' \<or> c = CHR '','' \<or> c = CHR ''='' \<or> c = CHR ''?'' \<or>
     c = CHR '';''"

definition flush :: "string \<Rightarrow> token list" where
  "flush cur = (if cur = [] then [] else [Word cur])"

text \<open>
  \<open>cur\<close> is the word or the quoted text read so far, \<open>inq\<close> tells whether a quote is open.
  A quote left open gives a lone quote symbol, which no statement accepts.
\<close>

fun lex_from :: "string \<Rightarrow> bool \<Rightarrow> string \<Rightarrow> token list" where
  "lex_from cur inq [] = (if inq then [Sym (CHR 0x27)] else flush cur)"
| "lex_from cur inq (c # cs) =
     (if inq then
        (if c = CHR 0x27 then Quoted cur # lex_from [] False cs
         else lex_from (cur @ [c]) True cs)
      else if c = CHR 0x27 then flush cur @ lex_from [] True cs
      else if is_space c then flush cur @ lex_from [] False cs
      else if is_sym c then flush cur @ Sym c # lex_from [] False cs
      else lex_from (cur @ [c]) False cs)"

definition sql_tokens :: "string \<Rightarrow> token list" where
  "sql_tokens sql = lex_from [] False sql"

subsection \<open>Parser\<close>

datatype expr =
    Column string
  | DateFormat string string
  | SumOf string
  | CountOf string
  | CountDistinctOf string

datatype ordering = ByName string bool | ByField string "string list"

text \<open>
  \<^verbatim>\<open>SELECT [DISTINCT] items FROM sales_data [WHERE col = ? AND ...] [GROUP BY names]
  [ORDER BY ...] [LIMIT n]\<close>: whether it is distinct, the items with the names of their
  output columns, the columns compared with a parameter, the grouping names, the ordering
  (a name, descending or not, or \<^verbatim>\<open>FIELD(col, 'a', 'b', ...)\<close>), the limit.
\<close>

datatype select =
  Select bool "(expr \<times> string) list" "string list" "string list" "ordering option" "nat option"

definition reserved_words :: "string list" where
  "reserved_words = [''SELECT'', ''DISTINCT'', ''FROM'', ''WHERE'', ''AND'', ''GROUP'', ''ORDER'', ''BY'',
     ''LIMIT'', ''AS'', ''ASC'', ''DESC'']"

definition parse_expr :: "token list \<Rightarrow> (expr \<times> token list) option" where
  "parse_expr toks =
     (case toks of
        Word f # Sym p # Word d # Word c # Sym q # rest \<Rightarrow>
          if f = ''COUNT'' \<and> p = CHR ''('' \<and> d = ''DISTINCT'' \<and> q = CHR '')''
          then Some (CountDistinctOf c, rest) else None
      | Word f # Sym p # Word c # Sym k # Quoted fmt # Sym q # rest \<Rightarrow>
          if f = ''DATE_FORMAT'' \<and> p = CHR ''('' \<and> k = CHR '','' \<and> q = CHR '')''
          then Some (DateFormat c fmt, rest) else None
      | Word f # Sym p # Word c # Sym q # rest \<Rightarrow>
          if p = CHR ''('' \<and> q = CHR '')'' then
            (if f = ''SUM'' then Some (SumOf c, rest)
             else if f = ''COUNT'' then Some (CountOf c, rest)
             else None)
          else if f \<notin> set reserved_words then Some (Column f, Sym p # Word c # Sym q # rest)
          else None
      | Word c # rest \<Rightarrow> if c \<notin> set reserved_words then Some (Column c, rest) else None
      | _ \<Rightarrow> None)"

text \<open>An item is an expression with \<^verbatim>\<open>AS name\<close>; a column may stand without a name.\<close>

definition parse_item :: "token list \<Rightarrow> (expr \<times> string) option" where
  "parse_item toks =
     (case parse_expr toks of
        None \<Rightarrow> None
      | Some (e, rest) \<Rightarrow>
          (case rest of
             [] \<Rightarrow> (case e of Column c \<Rightarrow> Some (e, c) | _ \<Rightarrow> None)
           | [Word a, Word name] \<Rightarrow>
               if a = ''AS'' \<and> name \<notin> set reserved_words then Some (e, name) else None
           | _ \<Rightarrow> None))"

text \<open>The tokens between commas that are outside parentheses.\<close>

fun split_commas :: "nat \<Rightarrow> token list \<Rightarrow> token list \<Rightarrow> token list list" where
  "split_commas depth cur [] = [cur]"
| "split_commas depth cur (t # ts) =
     (if t = Sym (CHR '','') \<and> depth = 0 then cur # split_commas 0 [] ts
      else if t = Sym (CHR ''('') then split_commas (Suc depth) (cur @ [t]) ts
      else if t = Sym (CHR '')'') then split_commas (depth - 1) (cur @ [t]) ts
      else split_commas depth (cur @ [t]) ts)"

fun parse_conds :: "token list \<Rightarrow> (string list \<times> token list) option" where
  "parse_conds (Word c # Sym e # Sym p # rest) =
     (if e = CHR ''='' \<and> p = CHR ''?'' \<and> c \<notin> set reserved_words then
        (case rest of
           Word a # rest' \<Rightarrow>
             if a = ''AND'' then
               (case parse_conds rest' of
                  None \<Rightarrow> None
                | Some (cs, rest'') \<Rightarrow> Some (c # cs, rest''))
             else Some ([c], rest)
         | _ \<Rightarrow> Some ([c], rest))
      else None)"
| "parse_conds toks = None"

definition parse_where :: "token list \<Rightarrow> (string list \<times> token list) option" where
  "parse_where toks =
     (case toks of
        Word w # rest \<Rightarrow> if w = ''WHERE'' then parse_conds rest else Some ([], toks)
      | _ \<Rightarrow> Some ([], toks))"

fun parse_names :: "token list \<Rightarrow> (string list \<times> token list) option" where
  "parse_names (Word a # Sym k # rest) =
     (if a \<in> set reserved_words then None
      else if k = CHR '','' then
        (case parse_names rest of
           None \<Rightarrow> None
         | Some (names, rest') \<Rightarrow> Some (a # names, rest'))
      else Some ([a], Sym k # rest))"
| "parse_names (Word a # rest) = (if a \<in> set reserved_words then None else Some ([a], rest))"
| "parse_names toks = None"

definition parse_group :: "token list \<Rightarrow> (string list \<times> token list) option" where
  "parse_group toks =
     (case toks of
        Word g # Word b # rest \<Rightarrow>
          if g = ''GROUP'' then (if b = ''BY'' then parse_names rest else None)
          else Some ([], toks)
      | _ \<Rightarrow> Some ([], toks))"

fun parse_quoted :: "token list \<Rightarrow> (string list \<times> token list) option" where
  "parse_quoted (Sym k # Quoted s # rest) =
     (if k = CHR '','' then
        (case parse_quoted rest of
           None \<Rightarrow> None
         | Some (ss, rest') \<Rightarrow> Some (s # ss, rest'))
      else None)"
| "parse_quoted (Sym q # rest) = (if q = CHR '')'' then Some ([], rest) else None)"
| "parse_quoted toks = None"

definition parse_order :: "token list \<Rightarrow> (ordering option \<times> token list) option" where
  "parse_order toks =
     (case toks of
        Word ob # Word b # rest \<Rightarrow>
          if ob = ''ORDER'' then
            (if b = ''BY'' then
               (case rest of
                  Word f # Sym p # Word c # rest' \<Rightarrow>
                    if f = ''FIELD'' \<and> p = CHR ''('' then
                      (case parse_quoted rest' of
                         None \<Rightarrow> None
                       | Some (ss, rest'') \<Rightarrow> Some (Some (ByField c ss), rest''))
                    else if f \<in> set reserved_words then None
                    else Some (Some (ByName f False), Sym p # Word c # rest')
                | Word k # Word d # rest' \<Rightarrow>
                    if k \<in> set reserved_words then None
                    else if d = ''DESC'' then Some (Some (ByName k True), rest')
                    else if d = ''ASC'' then Some (Some (ByName k False), rest')
                    else Some (Some (ByName k False), Word d # rest')
                | Word k # rest' \<Rightarrow>
                    if k \<in> set reserved_words then None else Some (Some (ByName k False), rest')
                | _ \<Rightarrow> None)
             else None)
          else Some (None, toks)
      | _ \<Rightarrow> Some (None, toks))"

definition digit_value :: "char \<Rightarrow> nat option" where
  "digit_value c =
     (if CHR ''0'' \<le> c \<and> c \<le> CHR ''9'' then Some (of_char c - of_char (CHR ''0'')) else None)"

fun decimal_from :: "nat \<Rightarrow> string \<Rightarrow> nat option" where
  "decimal_from acc [] = Some acc"
| "decimal_from acc (c # cs) =
     (case digit_value c of None \<Rightarrow> None | Some d \<Rightarrow> decimal_from (acc * 10 + d) cs)"

definition decimal :: "string \<Rightarrow> nat option" where
  "decimal s = (if s = [] then None else decimal_from 0 s)"

definition parse_limit :: "token list \<Rightarrow> (nat option \<times> token list) option" where
  "parse_limit toks =
     (case toks of
        Word l # Word n # rest \<Rightarrow>
          if l = ''LIMIT'' then
            (case decimal n of None \<Rightarrow> None | Some k \<Rightarrow> Some (Some k, rest))
          else Some (None, toks)
      | _ \<Rightarrow> Some (None, toks))"

definition parse_select :: "token list \<Rightarrow> select option" where
  "parse_select toks =
     (case toks of
        Word s # rest \<Rightarrow>
          if s = ''SELECT'' then
            (let uniq = (case rest of Word d # _ \<Rightarrow> d = ''DISTINCT'' | _ \<Rightarrow> False);
                 rest1 = (if uniq then tl rest else rest);
                 item_toks = takeWhile (\<lambda>t. t \<noteq> Word ''FROM'') rest1
             in case (those (map parse_item (split_commas 0 [] item_toks)),
                      dropWhile (\<lambda>t. t \<noteq> Word ''FROM'') rest1) of
                  (Some items, Word f # Word t # rest2) \<Rightarrow>
                    if t = ''sales_data'' then
                      (case parse_where rest2 of
                         None \<Rightarrow> None
                       | Some (conds, rest3) \<Rightarrow>
                      (case parse_group rest3 of
                         None \<Rightarrow> None
                       | Some (names, rest4) \<Rightarrow>
                      (case parse_order rest4 of
                         None \<Rightarrow> None
                       | Some (ord, rest5) \<Rightarrow>
                      (case parse_limit rest5 of
                         None \<Rightarrow> None
                       | Some (cap, rest6) \<Rightarrow>
                           if rest6 = [] \<or> rest6 = [Sym (CHR '';'')]
                           then Some (Select uniq items conds names ord cap)
                           else None))))
                    else None
                | _ \<Rightarrow> None)
          else None
      | _ \<Rightarrow> None)"

subsection \<open>Evaluation\<close>

datatype cell = CNull | CInt int | CDec rat | CText string

definition text_column :: "string \<Rightarrow> (sale \<Rightarrow> string) option" where
  "text_column name =
     (if name = ''order_date'' then Some order_date
      else if name = ''customer_tier'' then Some customer_tier
      else if name = ''region'' then Some region
      else if name = ''product_name'' then Some product_name
      else if name = ''product_category'' then Some product_category
      else if name = ''sales_channel'' then Some sales_channel
      else None)"

definition numeric_column :: "string \<Rightarrow> (sale \<Rightarrow> rat) option" where
  "numeric_column name =
     (if name = ''order_id'' then Some (\<lambda>r. of_nat (order_id r))
      else if name = ''customer_id'' then Some (\<lambda>r. of_nat (customer_id r))
      else if name = ''revenue'' then Some revenue
      else None)"

definition column :: "string \<Rightarrow> (sale \<Rightarrow> cell) option" where
  "column name =
     (case text_column name of
        Some f \<Rightarrow> Some (\<lambda>r. CText (f r))
      | None \<Rightarrow>
          (if name = ''order_id'' then Some (\<lambda>r. CInt (int (order_id r)))
           else if name = ''customer_id'' then Some (\<lambda>r. CInt (int (customer_id r)))
           else if name = ''revenue'' then Some (\<lambda>r. CDec (revenue r))
           else None))"

definition month_names :: "(string \<times> string) list" where
  "month_names =
     [(''01'', ''Jan''), (''02'', ''Feb''), (''03'', ''Mar''), (''04'', ''Apr''), (''05'', ''May''),
      (''06'', ''Jun''), (''07'', ''Jul''), (''08'', ''Aug''), (''09'', ''Sep''), (''10'', ''Oct''),
      (''11'', ''Nov''), (''12'', ''Dec'')]"

text \<open>
  \<^verbatim>\<open>DATE_FORMAT\<close> with the two formats of the statements: \<^verbatim>\<open>%Y-%m\<close>, the year and the
  month, and \<^verbatim>\<open>%b\<close>, the abbreviated name of the month.
\<close>

definition date_format :: "string \<Rightarrow> (string \<Rightarrow> cell) option" where
  "date_format fmt =
     (if fmt = ''%Y-%m'' then Some (\<lambda>d. CText (take 7 d))
      else if fmt = ''%b'' then
        Some (\<lambda>d. case map_of month_names (take 2 (drop 5 d)) of
                     None \<Rightarrow> CNull
                   | Some m \<Rightarrow> CText m)
      else None)"

text \<open>
  The value of an expression on a group of rows. A column outside an aggregate is read in
  the first row of the group; \<^verbatim>\<open>SUM\<close> over no row is \<^verbatim>\<open>NULL\<close>.
\<close>

definition first_row :: "(sale \<Rightarrow> cell) \<Rightarrow> sale list \<Rightarrow> cell" where
  "first_row f g = (case g of [] \<Rightarrow> CNull | r # _ \<Rightarrow> f r)"

definition compile_expr :: "expr \<Rightarrow> (sale list \<Rightarrow> cell) option" where
  "compile_expr e =
     (case e of
        Column c \<Rightarrow> map_option first_row (column c)
      | DateFormat c fmt \<Rightarrow>
          (case (text_column c, date_format fmt) of
             (Some col, Some f) \<Rightarrow> Some (first_row (\<lambda>r. f (col r)))
           | _ \<Rightarrow> None)
      | SumOf c \<Rightarrow>
          map_option (\<lambda>f g. if g = [] then CNull else CDec (sum_list (map f g))) (numeric_column c)
      | CountOf c \<Rightarrow> map_option (\<lambda>f g. CInt (int (length g))) (column c)
      | CountDistinctOf c \<Rightarrow> map_option (\<lambda>f g. CInt (int (length (remdups (map f g))))) (column c))"

definition is_aggregate :: "expr \<Rightarrow> bool" where
  "is_aggregate e = (case e of Column c \<Rightarrow> False | DateFormat c fmt \<Rightarrow> False | _ \<Rightarrow> True)"

definition compile_item :: "expr \<times> string \<Rightarrow> (string \<times> (sale list \<Rightarrow> cell)) option" where
  "compile_item item = map_option (Pair (snd item)) (compile_expr (fst item))"

text \<open>A grouping name is a column of the table or else the name of an item that is no aggregate.\<close>

definition group_key :: "(expr \<times> string) list \<Rightarrow> string \<Rightarrow> (sale \<Rightarrow> cell) option" where
  "group_key items name =
     (case column name of
        Some f \<Rightarrow> Some f
      | None \<Rightarrow>
          (case map_of (map (\<lambda>(e, n). (n, e)) items) name of
             None \<Rightarrow> None
           | Some e \<Rightarrow>
               if is_aggregate e then None
               else map_option (\<lambda>f r. f [r]) (compile_expr e)))"

text \<open>
  The order of cells: \<^verbatim>\<open>NULL\<close> first, then numbers, then text. The key of an output row
  under an ordering: the cell of the named output column, or the position of the group's
  column value in the list of \<^verbatim>\<open>FIELD\<close> (0 when it is not in the list).
\<close>

definition cell_key :: "cell \<Rightarrow> nat \<times> rat \<times> string" where
  "cell_key c =
     (case c of
        CNull \<Rightarrow> (0, 0, [])
      | CInt n \<Rightarrow> (1, of_int n, [])
      | CDec r \<Rightarrow> (1, r, [])
      | CText s \<Rightarrow> (2, 0, s))"

definition named_cell :: "string \<Rightarrow> (string \<times> cell) list \<Rightarrow> cell" where
  "named_cell name out = (case map_of out name of None \<Rightarrow> CNull | Some c \<Rightarrow> c)"

fun field_position :: "string \<Rightarrow> string list \<Rightarrow> nat" where
  "field_position v [] = 0"
| "field_position v (s # ss) =
     (if v = s then 1 else (case field_position v ss of 0 \<Rightarrow> 0 | Suc n \<Rightarrow> Suc (Suc n)))"

definition order_key ::
  "(expr \<times> string) list \<Rightarrow> ordering \<Rightarrow>
   (((string \<times> cell) list \<times> sale list \<Rightarrow> nat \<times> rat \<times> string) \<times> bool) option" where
  "order_key items ord =
     (case ord of
        ByName name desc \<Rightarrow>
          if name \<in> snd ` set items then Some (\<lambda>(out, g). cell_key (named_cell name out), desc)
          else None
      | ByField c ss \<Rightarrow>
          (case text_column c of
             None \<Rightarrow> None
           | Some f \<Rightarrow>
               Some (\<lambda>(out, g). case g of
                                  [] \<Rightarrow> (0, 0, [])
                                | r # _ \<Rightarrow> (1, of_nat (field_position (f r) ss), []),
                     False)))"

text \<open>
  The stages of the evaluation of a statement on a table. The rows that satisfy the
  \<^verbatim>\<open>WHERE\<close> clause: \<open>matches\<close> says whether the text of a column equals a parameter.
\<close>

definition where_rows ::
  "(string \<Rightarrow> qsval \<Rightarrow> bool) \<Rightarrow> (sale \<Rightarrow> string) list \<Rightarrow> qsval list \<Rightarrow> sale list \<Rightarrow> sale list" where
  "where_rows matches cols params table =
     filter (\<lambda>r. list_all2 (\<lambda>f p. matches (f r) p) cols params) table"

text \<open>
  The groups: with \<^verbatim>\<open>GROUP BY\<close>, one group for each value of the keys, in the order of
  their first rows; without it, all rows as one group when an item is an aggregate, and
  else each row by itself.
\<close>

definition group_rows :: "bool \<Rightarrow> bool \<Rightarrow> (sale \<Rightarrow> cell) list \<Rightarrow> sale list \<Rightarrow> sale list list" where
  "group_rows named aggregated keys kept =
     (if named then
        map (\<lambda>k. filter (\<lambda>r. map (\<lambda>f. f r) keys = k) kept)
            (remdups (map (\<lambda>r. map (\<lambda>f. f r) keys) kept))
      else if aggregated then [kept]
      else map (\<lambda>r. [r]) kept)"

text \<open>The output row of each group, kept with its group.\<close>

definition output_pairs ::
  "(string \<times> (sale list \<Rightarrow> cell)) list \<Rightarrow> sale list list \<Rightarrow>
   ((string \<times> cell) list \<times> sale list) list" where
  "output_pairs outs groups = map (\<lambda>g. (map (\<lambda>(name, f). (name, f g)) outs, g)) groups"

text \<open>\<^verbatim>\<open>DISTINCT\<close>: each output row once.\<close>

definition distinct_pairs ::
  "bool \<Rightarrow> ((string \<times> cell) list \<times> sale list) list \<Rightarrow> ((string \<times> cell) list \<times> sale list) list" where
  "distinct_pairs uniq pairs =
     (if uniq then map (\<lambda>out. (out, [])) (remdups (map fst pairs)) else pairs)"

text \<open>\<^verbatim>\<open>ORDER BY\<close>: a stable sort by the key, reversed when descending.\<close>

definition order_pairs ::
  "(((string \<times> cell) list \<times> sale list \<Rightarrow> nat \<times> rat \<times> string) \<times> bool) option \<Rightarrow>
   ((string \<times> cell) list \<times> sale list) list \<Rightarrow> ((string \<times> cell) list \<times> sale list) list" where
  "order_pairs okey pairs =
     (case okey of
        None \<Rightarrow> pairs
      | Some (key, desc) \<Rightarrow> if desc then rev (sort_key key pairs) else sort_key key pairs)"

text \<open>\<^verbatim>\<open>LIMIT\<close>.\<close>

definition limit_pairs ::
  "nat option \<Rightarrow> ((string \<times> cell) list \<times> sale list) list \<Rightarrow>
   ((string \<times> cell) list \<times> sale list) list" where
  "limit_pairs cap pairs = (case cap of None \<Rightarrow> pairs | Some n \<Rightarrow> take n pairs)"

text \<open>
  The rows of a statement on a table, as lists of named cells. \<open>None\<close> is a statement
  that the engine refuses: an unknown column or name, or a number of parameters that is
  not the number of placeholders.
\<close>

definition run ::
  "(string \<Rightarrow> qsval \<Rightarrow> bool) \<Rightarrow> sale list \<Rightarrow> select \<Rightarrow> qsval list \<Rightarrow>
   (string \<times> cell) list list option" where
  "run matches table st params =
     (case st of
        Select uniq items conds names ord cap \<Rightarrow>
          (case (those (map text_column conds), those (map compile_item items),
                 those (map (group_key items) names),
                 (case ord of None \<Rightarrow> Some None | Some ob \<Rightarrow> map_option Some (order_key items ob))) of
             (Some cols, Some outs, Some keys, Some okey) \<Rightarrow>
               if length conds \<noteq> length params then None
               else
                 Some (map fst
                   (limit_pairs cap
                     (order_pairs okey
                       (distinct_pairs uniq
                         (output_pairs outs
                           (group_rows (names \<noteq> []) (list_ex (\<lambda>item. is_aggregate (fst item)) items)
                              keys
                              (where_rows matches cols params table)))))))
           | _ \<Rightarrow> None))"

text \<open>
  The row objects that the driver delivers: text as a string, a count as a number, an
  exact decimal as \<open>dec\<close> gives it (\<^verbatim>\<open>mysql2\<close> gives a string or a number, by the column's
  type and its configuration), \<^verbatim>\<open>NULL\<close> as \<^verbatim>\<open>null\<close>.
\<close>

definition deliver :: "(rat \<Rightarrow> jsval) \<Rightarrow> cell \<Rightarrow> jsval" where
  "deliver dec c =
     (case c of
        CNull \<Rightarrow> Null
      | CInt n \<Rightarrow> Number (Fin (of_int n))
      | CDec r \<Rightarrow> dec r
      | CText s \<Rightarrow> Str s)"

definition row_object :: "(rat \<Rightarrow> jsval) \<Rightarrow> (string \<times> cell) list \<Rightarrow> row" where
  "row_object dec out = map_of (map (\<lambda>(name, c). (name, deliver dec c)) out)"

text \<open>
  The engine on a table: it accepts every connection and answers a statement with its
  rows, or rejects it when it does not parse or cannot be evaluated.
\<close>

definition sql_engine ::
  "(string \<Rightarrow> qsval \<Rightarrow> bool) \<Rightarrow> (rat \<Rightarrow> jsval) \<Rightarrow> sale list \<Rightarrow> unit mysql" where
  "sql_engine matches dec table =
     \<lparr>createConnection = (\<lambda>s. (Inr 0, s)),
      execute = (\<lambda>connection sql params s.
        case parse_select (sql_tokens sql) of
          None \<Rightarrow> (Inl ''ER_PARSE_ERROR'', s)
        | Some st \<Rightarrow>
            (case run matches table st params of
               None \<Rightarrow> (Inl ''ER_BAD_FIELD_ERROR'', s)
             | Some outs \<Rightarrow> (Inr (map (row_object dec) outs), s))),
      conn_end = (\<lambda>connection s. s)\<rparr>"

section \<open>Databases and a runtime for the examples\<close>

text \<open>
  A database that is up: every connection succeeds and every statement is answered, by
  the rows \<open>answer\<close> gives for its text and parameters.
\<close>

definition engine :: "(string \<Rightarrow> qsval list \<Rightarrow> row list) \<Rightarrow> unit mysql" where
  "engine answer =
     \<lparr>createConnection = (\<lambda>s. (Inr 0, s)),
      execute = (\<lambda>connection sql params s. (Inr (answer sql params), s)),
      conn_end = (\<lambda>connection s. s)\<rparr>"

text \<open>A database that accepts connections and rejects every statement, and one that is down.\<close>

definition rejecting_engine :: "string \<Rightarrow> unit mysql" where
  "rejecting_engine err =
     \<lparr>createConnection = (\<lambda>s. (Inr 0, s)),
      execute = (\<lambda>connection sql params s. (Inl err, s)),
      conn_end = (\<lambda>connection s. s)\<rparr>"

definition down_engine :: "string \<Rightarrow> unit mysql" where
  "down_engine err =
     \<lparr>createConnection = (\<lambda>s. (Inl err, s)),
      execute = (\<lambda>connection sql params s. (Inl err, s)),
      conn_end = (\<lambda>connection s. s)\<rparr>"

text \<open>
  A database whose first connection succeeds and whose later connections are refused:
  its state counts the connections asked for.
\<close>

definition one_shot_engine :: "row list \<Rightarrow> nat mysql" where
  "one_shot_engine rows =
     \<lparr>createConnection = (\<lambda>n. (if n = 0 then Inr 0 else Inl ''ER_CON_COUNT_ERROR'', Suc n)),
      execute = (\<lambda>connection sql params n. (Inr rows, n)),
      conn_end = (\<lambda>connection n. n)\<rparr>"

text \<open>
  A runtime for the examples. Its arithmetic is exact on finite numbers, which is what
  double arithmetic gives on the values of the examples (whole numbers, and quotients and
  products of them that are whole or halves); anything else it answers with \<open>NaN\<close>. It
  prints and reads plain decimals: \<^verbatim>\<open>toFixed\<close> rounds the magnitude, a tie going up, and
  \<^verbatim>\<open>parseFloat\<close> reads digits with an optional sign and fraction.
\<close>

fun exact_sub :: "number \<Rightarrow> number \<Rightarrow> number" where
  "exact_sub (Fin a) (Fin b) = Fin (a - b)"
| "exact_sub _ _ = NaN"

fun exact_mul :: "number \<Rightarrow> number \<Rightarrow> number" where
  "exact_mul (Fin a) (Fin b) = Fin (a * b)"
| "exact_mul _ _ = NaN"

fun exact_div :: "number \<Rightarrow> number \<Rightarrow> number" where
  "exact_div (Fin a) (Fin b) = (if b = 0 then NaN else Fin (a / b))"
| "exact_div _ _ = NaN"

function show_nat :: "nat \<Rightarrow> string" where
  "show_nat n =
     (if n < 10 then [''0123456789'' ! n]
      else show_nat (n div 10) @ [''0123456789'' ! (n mod 10)])"
  by pat_completeness auto
termination
  by (relation "measure id") auto

declare show_nat.simps [simp del]

definition print_fixed :: "rat \<Rightarrow> nat \<Rightarrow> string" where
  "print_fixed x d =
     (let n = nat \<lfloor>\<bar>x\<bar> * 10 ^ d + 1 / 2\<rfloor>;
          frac = show_nat (n mod 10 ^ d)
      in (if x < 0 then ''-'' else []) @ show_nat (n div 10 ^ d) @
         (if d = 0 then [] else ''.'' @ replicate (d - length frac) (CHR ''0'') @ frac))"

definition read_decimal :: "string \<Rightarrow> number" where
  "read_decimal s =
     (let neg = (take 1 s = ''-'');
          body = (if neg then drop 1 s else s);
          whole = takeWhile (\<lambda>c. c \<noteq> CHR ''.'') body;
          frac = drop 1 (dropWhile (\<lambda>c. c \<noteq> CHR ''.'') body)
      in case (decimal whole, if frac = [] then Some 0 else decimal frac) of
           (Some i, Some f) \<Rightarrow>
             Fin ((if neg then - 1 else 1) * (of_nat i + of_nat f / 10 ^ length frac))
         | _ \<Rightarrow> NaN)"

definition numeric_runtime :: runtime where
  "numeric_runtime =
     \<lparr>parseFloat = (\<lambda>v. case v of Number n \<Rightarrow> n | Str s \<Rightarrow> read_decimal s | _ \<Rightarrow> NaN),
      parseInt = (\<lambda>v. case v of Number (Fin r) \<Rightarrow> Fin (sgn r * of_int \<lfloor>\<bar>r\<bar>\<rfloor>) | _ \<Rightarrow> NaN),
      stringToNumber = read_decimal,
      float_sub = exact_sub,
      float_div = exact_div,
      float_mul = exact_mul,
      toFixed = (\<lambda>x d. case x of
                   Fin r \<Rightarrow> print_fixed r d
                 | NaN \<Rightarrow> ''NaN''
                 | PosInf \<Rightarrow> ''Infinity''
                 | NegInf \<Rightarrow> ''-Infinity'')\<rparr>"

text \<open>The growth entry of a KPI body.\<close>

definition growth_figure :: "response \<Rightarrow> jsval option" where
  "growth_figure r = (case r of Kpis body \<Rightarrow> body ''growth'' | _ \<Rightarrow> None)"

text \<open>
  An example: three months of revenue, 100, 150 and 300, and a database that answers the
  monthly-revenue statement of an unfiltered request with them and any other statement
  with one row of totals.
\<close>

definition three_months :: "row list" where
  "three_months =
     [[''month_year'' \<mapsto> Str ''2024-01'', ''monthly_revenue'' \<mapsto> Number (Fin 100)],
      [''month_year'' \<mapsto> Str ''2024-02'', ''monthly_revenue'' \<mapsto> Number (Fin 150)],
      [''month_year'' \<mapsto> Str ''2024-03'', ''monthly_revenue'' \<mapsto> Number (Fin 300)]]"

definition totals_row :: row where
  "totals_row =
     [''revenue'' \<mapsto> Number (Fin 550), ''orders'' \<mapsto> Number (Fin 7), ''customers'' \<mapsto> Number (Fin 4)]"

definition example_answer :: "string \<Rightarrow> qsval list \<Rightarrow> row list" where
  "example_answer sql params = (if sql = growth_sql [] then three_months else [totals_row])"



text \<open>
  Whether every connection acquired is ended before another is asked for and before the
  end of the events; \<open>held\<close> is the connection that is open.
\<close>

fun released :: "nat option \<Rightarrow> event list \<Rightarrow> bool" where
  "released held [] = (held = None)"
| "released held (Acquired c # evs) = (held = None \<and> released (Some c) evs)"
| "released held (AcquireFailed err # evs) = (held = None \<and> released None evs)"
| "released held (Ended c # evs) = (held = Some c \<and> released None evs)"
| "released held (e # evs) = released held evs"

text \<open>
  The number of calls of \<open>queryDatabase\<close> made when statements are run one after the
  other until one fails.
\<close>

fun calls_made :: "'s mysql \<Rightarrow> (string \<times> qsval list) list \<Rightarrow> 's \<Rightarrow> nat" where
  "calls_made m [] s = 0"
| "calls_made m (st # rest) s =
     (case queryDatabase m (fst st) (snd st) s of
        (Inl err, evs, s1) \<Rightarrow> 1
      | (Inr rows, evs, s1) \<Rightarrow> Suc (calls_made m rest s1))"

text \<open>
  The rows that a request's filters keep: for each recognised parameter that passes the
  guard of \<open>buildFilter\<close>, the row's column matches the parameter's value.
\<close>

definition query_keeps :: "(string \<Rightarrow> qsval \<Rightarrow> bool) \<Rightarrow> query \<Rightarrow> sale \<Rightarrow> bool" where
  "query_keeps matches query r \<longleftrightarrow>
     (case query ''region'' of
        None \<Rightarrow> True | Some v \<Rightarrow> selected (Some v) \<longrightarrow> matches (region r) v) \<and>
     (case query ''product'' of
        None \<Rightarrow> True | Some v \<Rightarrow> selected (Some v) \<longrightarrow> matches (product_name r) v) \<and>
     (case query ''channel'' of
        None \<Rightarrow> True | Some v \<Rightarrow> selected (Some v) \<longrightarrow> matches (sales_channel r) v) \<and>
     (case query ''category'' of
        None \<Rightarrow> True | Some v \<Rightarrow> selected (Some v) \<longrightarrow> matches (product_category r) v)"

text \<open>The columns that a request's filters compare with a parameter, in order.\<close>

definition selected_columns :: "query \<Rightarrow> string list" where
  "selected_columns query =
     (if selected (query ''region'') then [''region''] else []) @
     (if selected (query ''product'') then [''product_name''] else []) @
     (if selected (query ''channel'') then [''sales_channel''] else []) @
     (if selected (query ''category'') then [''product_category''] else [])"

text \<open>The tokens of the clause that \<open>buildFilter\<close> writes for these columns.\<close>

fun cond_tokens :: "string list \<Rightarrow> token list" where
  "cond_tokens [] = []"
| "cond_tokens [c] = [Word c, Sym (CHR ''=''), Sym (CHR ''?'')]"
| "cond_tokens (c # cs) = [Word c, Sym (CHR ''=''), Sym (CHR ''?''), Word ''AND''] @ cond_tokens cs"

definition where_tokens :: "string list \<Rightarrow> token list" where
  "where_tokens cols = (if cols = [] then [] else Word ''WHERE'' # cond_tokens cols)"

text \<open>
  The month of a sale; the months of the rows that a request's filters keep, from the
  earliest to the latest, and the revenue of such a month; the summed revenue of each
  value of a column.
\<close>

definition month_of :: "sale \<Rightarrow> string" where
  "month_of r = take 7 (order_date r)"

definition filtered_months :: "(string \<Rightarrow> qsval \<Rightarrow> bool) \<Rightarrow> query \<Rightarrow> sale list \<Rightarrow> string list" where
  "filtered_months matches query table =
     sort (remdups (map month_of (filter (query_keeps matches query) table)))"

definition month_revenue ::
  "(string \<Rightarrow> qsval \<Rightarrow> bool) \<Rightarrow> query \<Rightarrow> sale list \<Rightarrow> string \<Rightarrow> rat" where
  "month_revenue matches query table m =
     sum_list (map revenue
       (filter (\<lambda>r. month_of r = m) (filter (query_keeps matches query) table)))"

definition group_sum :: "(sale \<Rightarrow> string) \<Rightarrow> sale list \<Rightarrow> (string \<times> rat) list" where
  "group_sum col table =
     map (\<lambda>k. (k, sum_list (map revenue (filter (\<lambda>r. col r = k) table)))) (remdups (map col table))"


text \<open>An example table, and the comparison of a column's text with a string parameter.\<close>

definition example_sales :: "sale list" where
  "example_sales =
     [\<lparr>order_id = 1, order_date = ''2024-01-05'', customer_id = 11, customer_tier = ''Gold'',
       region = ''North'', product_name = ''Laptop'', product_category = ''Electronics'',
       sales_channel = ''Online'', revenue = 1200\<rparr>,
      \<lparr>order_id = 2, order_date = ''2024-01-17'', customer_id = 12, customer_tier = ''Silver'',
       region = ''East'', product_name = ''Desk'', product_category = ''Furniture'',
       sales_channel = ''Retail'', revenue = 300\<rparr>,
      \<lparr>order_id = 3, order_date = ''2024-02-02'', customer_id = 11, customer_tier = ''Gold'',
       region = ''North'', product_name = ''Phone'', product_category = ''Electronics'',
       sales_channel = ''Online'', revenue = 800\<rparr>,
      \<lparr>order_id = 4, order_date = ''2024-02-11'', customer_id = 13, customer_tier = ''Bronze'',
       region = ''North'', product_name = ''Chair'', product_category = ''Furniture'',
       sales_channel = ''Retail'', revenue = 150\<rparr>,
      \<lparr>order_id = 5, order_date = ''2024-02-20'', customer_id = 14, customer_tier = ''Platinum'',
       region = ''North'', product_name = ''Laptop'', product_category = ''Electronics'',
       sales_channel = ''Retail'', revenue = 1000\<rparr>,
      \<lparr>order_id = 6, order_date = ''2024-03-03'', customer_id = 12, customer_tier = ''Silver'',
       region = ''North'', product_name = ''Lamp'', product_category = ''Furniture'',
       sales_channel = ''Online'', revenue = 40\<rparr>,
      \<lparr>order_id = 7, order_date = ''2024-03-09'', customer_id = 13, customer_tier = ''Bronze'',
       region = ''North'', product_name = ''Tablet'', product_category = ''Electronics'',
       sales_channel = ''Online'', revenue = 500\<rparr>,
      \<lparr>order_id = 8, order_date = ''2024-03-15'', customer_id = 14, customer_tier = ''Platinum'',
       region = ''North'', product_name = ''Monitor'', product_category = ''Electronics'',
       sales_channel = ''Partner'', revenue = 360\<rparr>,
      \<lparr>order_id = 9, order_date = ''2024-03-28'', customer_id = 11, customer_tier = ''Gold'',
       region = ''North'', product_name = ''Chair'', product_category = ''Furniture'',
       sales_channel = ''Online'', revenue = 600\<rparr>]"

definition text_equals :: "string \<Rightarrow> qsval \<Rightarrow> bool" where
  "text_equals s v = (v = QStr s)"

section \<open>Properties of the filter builder\<close>

lemma push_filter_selected:
  "push_filter q key fragment acc =
     (if selected (q key) then (fst acc @ [fragment], snd acc @ [the (q key)]) else acc)"
  by (cases "q key") (simp_all add: push_filter_def selected_def)

lemma selected_case:
  "(case q key of None \<Rightarrow> [] | Some v \<Rightarrow> if selected (Some v) then [v] else []) =
     (if selected (q key) then [the (q key)] else [])"
  by (cases "q key") (simp_all add: selected_def)

lemma selected_params_unfold:
  "selected_params q =
     (if selected (q ''region'') then [the (q ''region'')] else []) @
     (if selected (q ''product'') then [the (q ''product'')] else []) @
     (if selected (q ''channel'') then [the (q ''channel'')] else []) @
     (if selected (q ''category'') then [the (q ''category'')] else [])"
  by (simp add: selected_params_def recognized_def selected_case)

lemma selected_fragments_unfold:
  "selected_fragments q =
     (if selected (q ''region'') then [''region = ?''] else []) @
     (if selected (q ''product'') then [''product_name = ?''] else []) @
     (if selected (q ''channel'') then [''sales_channel = ?''] else []) @
     (if selected (q ''category'') then [''product_category = ?''] else [])"
  by (simp add: selected_fragments_def recognized_def)

lemma buildFilter_params: "snd (buildFilter q) = selected_params q"
  by (simp add: buildFilter_def Let_def push_filter_selected selected_params_unfold)

lemma buildFilter_filters:
  "fst (buildFilter q) =
     (if selected_fragments q = [] then [] else ''WHERE '' @ join '' AND '' (selected_fragments q))"
  by (simp add: buildFilter_def Let_def push_filter_selected selected_fragments_unfold)

lemma placeholders_append: "placeholders (xs @ ys) = placeholders xs + placeholders ys"
  by (induction xs) (simp_all add: placeholders_def)

lemma placeholders_join:
  "\<forall>f \<in> set fs. placeholders f = 1 \<Longrightarrow> placeholders sep = 0 \<Longrightarrow>
   placeholders (join sep fs) = length fs"
  by (induction sep fs rule: join.induct) (simp_all add: placeholders_append placeholders_def)

lemma selected_fragments_placeholders: "\<forall>f \<in> set (selected_fragments q). placeholders f = 1"
  by (auto simp: selected_fragments_def recognized_def placeholders_def)

lemma length_selected: "length (selected_params q) = length (selected_fragments q)"
  by (simp add: selected_params_unfold selected_fragments_unfold)

lemma push_filter_All: "push_filter (q(key \<mapsto> QStr ''All'')) key fragment acc = acc"
  by (simp add: push_filter_def)

lemma push_filter_absent: "push_filter (q(key := None)) key fragment acc = acc"
  by (simp add: push_filter_def)

lemma push_filter_other:
  "key \<noteq> p \<Longrightarrow> push_filter (q(p := v)) key fragment acc = push_filter q key fragment acc"
  by (simp add: push_filter_def)

text \<open>
  C1 (amended). For every query object the result of \<open>buildFilter\<close> is a well-formed
  predicate fragment with its positional parameters: the clause has as many \<^verbatim>\<open>?\<close>
  placeholders as there are parameters; the parameters are the values of region, product,
  channel, category, in this order, restricted to those that are present, truthy (not the
  empty string) and not \<^verbatim>\<open>'All'\<close>; the equality fragments of exactly these parameters are
  joined with \<^verbatim>\<open>' AND '\<close>; and the clause is empty or begins with \<^verbatim>\<open>'WHERE '\<close>.
\<close>

theorem buildFilter_wellformed:
  "placeholders (fst (buildFilter q)) = length (snd (buildFilter q)) \<and>
   snd (buildFilter q) = selected_params q \<and>
   fst (buildFilter q) =
     (if selected_fragments q = [] then []
      else ''WHERE '' @ join '' AND '' (selected_fragments q)) \<and>
   (fst (buildFilter q) = [] \<or> take 6 (fst (buildFilter q)) = ''WHERE '')"
proof -
  have frag: "placeholders (join '' AND '' (selected_fragments q)) = length (selected_fragments q)"
    using selected_fragments_placeholders [of q]
    by (intro placeholders_join) (simp_all add: placeholders_def)
  have count: "placeholders (fst (buildFilter q)) = length (selected_fragments q)"
    using frag by (simp add: buildFilter_filters placeholders_append) (simp add: placeholders_def)
  have "placeholders (fst (buildFilter q)) = length (snd (buildFilter q))"
    using count by (simp add: buildFilter_params length_selected)
  moreover have "fst (buildFilter q) = [] \<or> take 6 (fst (buildFilter q)) = ''WHERE ''"
    by (simp add: buildFilter_filters)
  ultimately show ?thesis
    using buildFilter_params [of q] buildFilter_filters [of q] by simp
qed

theorem buildFilter_wellformed_witness:
  "placeholders (fst (buildFilter [''category'' \<mapsto> QStr ''All'', ''channel'' \<mapsto> QStr ''Web'',
       ''product'' \<mapsto> QStr [], ''region'' \<mapsto> QStr ''North''])) = 2 \<and>
   buildFilter [''category'' \<mapsto> QStr ''All'', ''channel'' \<mapsto> QStr ''Web'',
       ''product'' \<mapsto> QStr [], ''region'' \<mapsto> QStr ''North''] =
     (''WHERE region = ? AND sales_channel = ?'', [QStr ''North'', QStr ''Web''])"
  using buildFilter_wellformed [of "[''category'' \<mapsto> QStr ''All'', ''channel'' \<mapsto> QStr ''Web'',
       ''product'' \<mapsto> QStr [], ''region'' \<mapsto> QStr ''North'']"]
  by (simp add: selected_params_unfold selected_fragments_unfold selected_def prod_eq_iff
      placeholders_def)

text \<open>
  C1 as stated fails for a parameter that is present with the empty string, as in
  \<^verbatim>\<open>GET /api/sales?region=\<close>: the value is present and is not \<^verbatim>\<open>'All'\<close>, yet the
  guard's truthiness test drops it, so it is not in the parameter list.
\<close>

theorem buildFilter_present_counterexample:
  "snd (buildFilter [''region'' \<mapsto> QStr []]) \<noteq> spec_params [''region'' \<mapsto> QStr []]"
  by (simp add: buildFilter_def Let_def push_filter_def spec_params_def recognized_def)

text \<open>
  C5. Two query objects that agree on region, product, channel and category give the
  same clause and the same parameters: no other query parameter influences the result.
\<close>

theorem buildFilter_recognized_only:
  assumes "q1 ''region'' = q2 ''region''" and "q1 ''product'' = q2 ''product''"
    and "q1 ''channel'' = q2 ''channel''" and "q1 ''category'' = q2 ''category''"
  shows "buildFilter q1 = buildFilter q2"
  using assms by (simp add: buildFilter_def Let_def push_filter_def)

theorem buildFilter_recognized_only_witness:
  "buildFilter [''region'' \<mapsto> QStr ''North'', ''tier'' \<mapsto> QStr ''Gold''] =
   buildFilter [''region'' \<mapsto> QStr ''North'', ''page'' \<mapsto> QArr [QStr ''1'', QStr ''2'']] \<and>
   buildFilter [''region'' \<mapsto> QStr ''North'', ''tier'' \<mapsto> QStr ''Gold''] =
     (''WHERE region = ?'', [QStr ''North''])"
proof -
  have "buildFilter [''region'' \<mapsto> QStr ''North'', ''tier'' \<mapsto> QStr ''Gold''] =
        buildFilter [''region'' \<mapsto> QStr ''North'', ''page'' \<mapsto> QArr [QStr ''1'', QStr ''2'']]"
    by (rule buildFilter_recognized_only) simp_all
  moreover have "buildFilter [''region'' \<mapsto> QStr ''North'', ''tier'' \<mapsto> QStr ''Gold''] =
      (''WHERE region = ?'', [QStr ''North''])"
    by (simp add: buildFilter_def Let_def push_filter_def)
  ultimately show ?thesis by simp
qed

text \<open>
  C9. \<^verbatim>\<open>'All'\<close> is an identity sentinel: setting a recognised parameter to \<^verbatim>\<open>'All'\<close>
  gives the same clause and parameters as leaving it out.
\<close>

theorem buildFilter_All_sentinel:
  assumes "p \<in> {''region'', ''product'', ''channel'', ''category''}"
  shows "buildFilter (q(p \<mapsto> QStr ''All'')) = buildFilter (q(p := None))"
proof -
  from assms consider "p = ''region''" | "p = ''product''" | "p = ''channel''" | "p = ''category''"
    by auto
  then show ?thesis
  proof cases
    case 1
    then show ?thesis
      by (simp add: buildFilter_def push_filter_All push_filter_absent push_filter_other)
  next
    case 2
    then show ?thesis
      by (simp add: buildFilter_def push_filter_All push_filter_absent push_filter_other)
  next
    case 3
    then show ?thesis
      by (simp add: buildFilter_def push_filter_All push_filter_absent push_filter_other)
  next
    case 4
    then show ?thesis
      by (simp add: buildFilter_def push_filter_All push_filter_absent push_filter_other)
  qed
qed

theorem buildFilter_All_sentinel_witness:
  "buildFilter [''region'' \<mapsto> QStr ''North'', ''channel'' \<mapsto> QStr ''All''] =
     (''WHERE region = ?'', [QStr ''North'']) \<and>
   buildFilter ([''region'' \<mapsto> QStr ''North''](''channel'' := None)) =
     (''WHERE region = ?'', [QStr ''North''])"
proof -
  have mem: "''channel'' \<in> {''region'', ''product'', ''channel'', ''category''}" by simp
  have "buildFilter ([''region'' \<mapsto> QStr ''North''](''channel'' := None)) =
      (''WHERE region = ?'', [QStr ''North''])"
    by (simp add: buildFilter_def Let_def push_filter_def)
  then show ?thesis
    using buildFilter_All_sentinel [OF mem, of "[''region'' \<mapsto> QStr ''North'']"] by simp
qed

section \<open>Properties of the query executor\<close>

lemma queryDatabase_engine:
  "queryDatabase (engine answer) sql params s =
     (Inr (answer sql params),
      [Acquired 0, ConsoleLog (log_line sql), Executed 0 sql params, Ended 0], s)"
  by (simp add: queryDatabase_def engine_def)

lemma queryDatabase_rejecting:
  "queryDatabase (rejecting_engine err) sql params s =
     (Inl failed_message,
      [Acquired 0, ConsoleLog (log_line sql), Executed 0 sql params,
       ConsoleError (error_line err), Ended 0], s)"
  by (simp add: queryDatabase_def rejecting_engine_def)

lemma queryDatabase_down:
  "queryDatabase (down_engine err) sql params s =
     (Inl failed_message, [AcquireFailed err, ConsoleError (error_line err)], s)"
  by (simp add: queryDatabase_def down_engine_def)

lemma attempts_append: "attempts (xs @ ys) = attempts xs + attempts ys"
  by (simp add: attempts_def)

lemma acquired_append: "acquired (xs @ ys) = acquired xs + acquired ys"
  by (simp add: acquired_def)

lemma ended_append: "ended (xs @ ys) = ended xs + ended ys"
  by (simp add: ended_def)

lemma queryDatabase_counts:
  "attempts (fst (snd (queryDatabase m sql params s))) = 1 \<and>
   acquired (fst (snd (queryDatabase m sql params s))) \<le> 1 \<and>
   ended (fst (snd (queryDatabase m sql params s))) =
     acquired (fst (snd (queryDatabase m sql params s)))"
  by (simp add: queryDatabase_def attempts_def acquired_def ended_def
      split: prod.splits sum.splits)

text \<open>
  C3. Whenever \<open>queryDatabase\<close> has acquired a connection, it ends that connection, once,
  as the last thing it does before its result reaches the caller: on the success path,
  where the result is the rows, and on the failure path, where the statement was rejected
  and the result is the error thrown.
\<close>

theorem queryDatabase_releases:
  assumes "createConnection m s = (Inr c, s1)"
    and "queryDatabase m sql params s = (result, evs, s')"
  shows "evs \<noteq> [] \<and> last evs = Ended c \<and> count_list evs (Ended c) = 1 \<and>
         ended evs = 1 \<and> acquired evs = 1 \<and>
         result = (case fst (execute m c sql params s1) of
                     Inl err \<Rightarrow> Inl failed_message
                   | Inr rows \<Rightarrow> Inr rows) \<and>
         s' = conn_end m c (snd (execute m c sql params s1))"
proof (cases "execute m c sql params s1")
  case (Pair outcome s2)
  show ?thesis
  proof (cases outcome)
    case (Inl err)
    with Pair assms show ?thesis
      by (auto simp: queryDatabase_def ended_def acquired_def)
  next
    case (Inr rows)
    with Pair assms show ?thesis
      by (auto simp: queryDatabase_def ended_def acquired_def)
  qed
qed

theorem queryDatabase_releases_witness:
  "queryDatabase (engine (\<lambda>sql params. [[''1'' \<mapsto> Number (Fin 1)]])) ''SELECT 1'' [] () =
     (Inr [[''1'' \<mapsto> Number (Fin 1)]],
      [Acquired 0, ConsoleLog ''Executing SQL: SELECT 1...'', Executed 0 ''SELECT 1'' [], Ended 0],
      ()) \<and>
   last [Acquired 0, ConsoleLog ''Executing SQL: SELECT 1...'', Executed 0 ''SELECT 1'' [], Ended 0]
     = Ended 0 \<and>
   queryDatabase (rejecting_engine ''ER_PARSE_ERROR'') ''SELEC 1'' [] () =
     (Inl failed_message,
      [Acquired 0, ConsoleLog ''Executing SQL: SELEC 1...'', Executed 0 ''SELEC 1'' [],
       ConsoleError ''CRITICAL: Database Query Error: ER_PARSE_ERROR'', Ended 0],
      ()) \<and>
   last [Acquired 0, ConsoleLog ''Executing SQL: SELEC 1...'', Executed 0 ''SELEC 1'' [],
       ConsoleError ''CRITICAL: Database Query Error: ER_PARSE_ERROR'', Ended 0]
     = Ended 0"
proof -
  have ok: "createConnection (engine (\<lambda>sql params. [[''1'' \<mapsto> Number (Fin 1)]])) () = (Inr 0, ())"
    by (simp add: engine_def)
  have q1: "queryDatabase (engine (\<lambda>sql params. [[''1'' \<mapsto> Number (Fin 1)]])) ''SELECT 1'' [] () =
     (Inr [[''1'' \<mapsto> Number (Fin 1)]],
      [Acquired 0, ConsoleLog ''Executing SQL: SELECT 1...'', Executed 0 ''SELECT 1'' [], Ended 0],
      ())"
    by (simp add: queryDatabase_engine log_line_def)
  have ok2: "createConnection (rejecting_engine ''ER_PARSE_ERROR'') () = (Inr 0, ())"
    by (simp add: rejecting_engine_def)
  have q2: "queryDatabase (rejecting_engine ''ER_PARSE_ERROR'') ''SELEC 1'' [] () =
     (Inl failed_message,
      [Acquired 0, ConsoleLog ''Executing SQL: SELEC 1...'', Executed 0 ''SELEC 1'' [],
       ConsoleError ''CRITICAL: Database Query Error: ER_PARSE_ERROR'', Ended 0],
      ())"
    by (simp add: queryDatabase_rejecting log_line_def error_line_def)
  show ?thesis
    using queryDatabase_releases [OF ok q1] queryDatabase_releases [OF ok2 q2] q1 q2
    by simp
qed

section \<open>Connections per request\<close>

lemma chart_handler_events:
  "events (chart_handler st rt m q s) =
     events (queryDatabase m (st (fst (buildFilter q))) (snd (buildFilter q)) s)"
  by (simp add: chart_handler_def split: prod.splits sum.splits)

lemma queryDatabase_released: "released None (events (queryDatabase m sql params s))"
  by (simp add: queryDatabase_def split: prod.splits sum.splits)

lemma released_append:
  "released held xs \<Longrightarrow> released None ys \<Longrightarrow> released held (xs @ ys)"
proof (induction xs arbitrary: held)
  case Nil
  then show ?case by simp
next
  case (Cons e xs)
  then show ?case by (cases e) auto
qed

lemma chart_handler_connections:
  "attempts (events (chart_handler st rt m q s)) = 1 \<and>
   released None (events (chart_handler st rt m q s))"
  by (simp only: chart_handler_events queryDatabase_counts queryDatabase_released simp_thms)

lemma api_kpis_events:
  assumes "buildFilter q = (wc, ps)"
    and "queryDatabase m (kpis_sql wc) ps s = (r1, e1, s1)"
    and "queryDatabase m (growth_sql wc) ps s1 = (r2, e2, s2)"
  shows "events (api_kpis rt m q s) = (case r1 of Inl err \<Rightarrow> e1 | Inr rows \<Rightarrow> e1 @ e2)"
  using assms by (simp add: api_kpis_def Let_def split: sum.splits list.splits)

lemma api_kpis_connections:
  "attempts (events (api_kpis rt m q s)) =
     calls_made m [(kpis_sql (fst (buildFilter q)), snd (buildFilter q)),
                   (growth_sql (fst (buildFilter q)), snd (buildFilter q))] s \<and>
   released None (events (api_kpis rt m q s))"
proof -
  obtain wc ps where bf: "buildFilter q = (wc, ps)"
    by (cases "buildFilter q")
  obtain r1 e1 s1 where q1: "queryDatabase m (kpis_sql wc) ps s = (r1, e1, s1)"
    by (cases "queryDatabase m (kpis_sql wc) ps s")
  obtain r2 e2 s2 where q2: "queryDatabase m (growth_sql wc) ps s1 = (r2, e2, s2)"
    by (cases "queryDatabase m (growth_sql wc) ps s1")
  have c1: "attempts e1 = 1 \<and> released None e1"
    using queryDatabase_counts [of m "kpis_sql wc" ps s]
      queryDatabase_released [of m "kpis_sql wc" ps s] q1 by simp
  have c2: "attempts e2 = 1 \<and> released None e2"
    using queryDatabase_counts [of m "growth_sql wc" ps s1]
      queryDatabase_released [of m "growth_sql wc" ps s1] q2 by simp
  show ?thesis
    using api_kpis_events [OF bf q1 q2, of rt] bf q1 q2 c1 c2
    by (cases r1) (simp_all add: attempts_append released_append split: sum.splits)
qed

lemma api_metadata_events:
  assumes "queryDatabase m metadata_regions_sql [] s = (r1, e1, s1)"
    and "queryDatabase m metadata_products_sql [] s1 = (r2, e2, s2)"
    and "queryDatabase m metadata_channels_sql [] s2 = (r3, e3, s3)"
    and "queryDatabase m metadata_categories_sql [] s3 = (r4, e4, s4)"
  shows "events (api_metadata m s) =
     (case r1 of Inl err \<Rightarrow> e1 | Inr rows1 \<Rightarrow>
        (case r2 of Inl err \<Rightarrow> e1 @ e2 | Inr rows2 \<Rightarrow>
           (case r3 of Inl err \<Rightarrow> e1 @ e2 @ e3 | Inr rows3 \<Rightarrow> e1 @ e2 @ e3 @ e4)))"
  using assms by (simp add: api_metadata_def split: sum.splits)

lemma api_metadata_connections:
  "attempts (events (api_metadata m s)) =
     calls_made m [(metadata_regions_sql, []), (metadata_products_sql, []),
                   (metadata_channels_sql, []), (metadata_categories_sql, [])] s \<and>
   released None (events (api_metadata m s))"
proof -
  obtain r1 e1 s1 where q1: "queryDatabase m metadata_regions_sql [] s = (r1, e1, s1)"
    by (cases "queryDatabase m metadata_regions_sql [] s")
  obtain r2 e2 s2 where q2: "queryDatabase m metadata_products_sql [] s1 = (r2, e2, s2)"
    by (cases "queryDatabase m metadata_products_sql [] s1")
  obtain r3 e3 s3 where q3: "queryDatabase m metadata_channels_sql [] s2 = (r3, e3, s3)"
    by (cases "queryDatabase m metadata_channels_sql [] s2")
  obtain r4 e4 s4 where q4: "queryDatabase m metadata_categories_sql [] s3 = (r4, e4, s4)"
    by (cases "queryDatabase m metadata_categories_sql [] s3")
  have c1: "attempts e1 = 1 \<and> released None e1"
    using queryDatabase_counts [of m metadata_regions_sql "[]" s]
      queryDatabase_released [of m metadata_regions_sql "[]" s] q1 by simp
  have c2: "attempts e2 = 1 \<and> released None e2"
    using queryDatabase_counts [of m metadata_products_sql "[]" s1]
      queryDatabase_released [of m metadata_products_sql "[]" s1] q2 by simp
  have c3: "attempts e3 = 1 \<and> released None e3"
    using queryDatabase_counts [of m metadata_channels_sql "[]" s2]
      queryDatabase_released [of m metadata_channels_sql "[]" s2] q3 by simp
  have c4: "attempts e4 = 1 \<and> released None e4"
    using queryDatabase_counts [of m metadata_categories_sql "[]" s3]
      queryDatabase_released [of m metadata_categories_sql "[]" s3] q4 by simp
  show ?thesis
    using api_metadata_events [OF q1 q2 q3 q4] q1 q2 q3 q4 c1 c2 c3 c4
    by (cases r1; cases r2; cases r3; cases r4)
       (simp_all add: attempts_append released_append)
qed

lemma api_kpis_engine_acquired: "acquired (events (api_kpis rt (engine answer) q u)) = 2"
  by (simp add: api_kpis_def queryDatabase_engine acquired_def Let_def split: prod.splits list.splits)

lemma api_metadata_engine_acquired: "acquired (events (api_metadata (engine answer) u)) = 4"
  by (simp add: api_metadata_def queryDatabase_engine acquired_def)

text \<open>
  C4 (amended). Every call of \<open>queryDatabase\<close> attempts exactly one connection, and a
  request makes one call for each statement that it runs, stopping at the first statement
  that fails. A request to a chart endpoint attempts exactly one connection. A request to
  \<^verbatim>\<open>/api/kpis\<close> attempts two when its first statement succeeds and one when it fails. A
  request to \<^verbatim>\<open>/api/metadata\<close> attempts as many as it runs statements, four when its
  first three statements succeed. Every connection acquired while serving a request is
  ended before another is asked for and before the handler responds. With the database
  up, the connections acquired are one, two and four.
\<close>

theorem connections_per_request:
  "attempts (events (api_sales rt m q s)) = 1 \<and>
   attempts (events (api_products rt m q s)) = 1 \<and>
   attempts (events (api_regions rt m q s)) = 1 \<and>
   attempts (events (api_channels rt m q s)) = 1 \<and>
   attempts (events (api_tiers rt m q s)) = 1 \<and>
   attempts (events (api_kpis rt m q s)) =
     calls_made m [(kpis_sql (fst (buildFilter q)), snd (buildFilter q)),
                   (growth_sql (fst (buildFilter q)), snd (buildFilter q))] s \<and>
   (\<forall>rows evs s1.
      queryDatabase m (kpis_sql (fst (buildFilter q))) (snd (buildFilter q)) s = (Inr rows, evs, s1)
      \<longrightarrow> attempts (events (api_kpis rt m q s)) = 2) \<and>
   (\<forall>err evs s1.
      queryDatabase m (kpis_sql (fst (buildFilter q))) (snd (buildFilter q)) s = (Inl err, evs, s1)
      \<longrightarrow> attempts (events (api_kpis rt m q s)) = 1) \<and>
   attempts (events (api_metadata m s)) =
     calls_made m [(metadata_regions_sql, []), (metadata_products_sql, []),
                   (metadata_channels_sql, []), (metadata_categories_sql, [])] s \<and>
   (\<forall>rows1 evs1 s1 rows2 evs2 s2 rows3 evs3 s3.
      queryDatabase m metadata_regions_sql [] s = (Inr rows1, evs1, s1) \<and>
      queryDatabase m metadata_products_sql [] s1 = (Inr rows2, evs2, s2) \<and>
      queryDatabase m metadata_channels_sql [] s2 = (Inr rows3, evs3, s3)
      \<longrightarrow> attempts (events (api_metadata m s)) = 4) \<and>
   released None (events (api_sales rt m q s)) \<and>
   released None (events (api_products rt m q s)) \<and>
   released None (events (api_regions rt m q s)) \<and>
   released None (events (api_channels rt m q s)) \<and>
   released None (events (api_tiers rt m q s)) \<and>
   released None (events (api_kpis rt m q s)) \<and>
   released None (events (api_metadata m s)) \<and>
   acquired (events (api_sales rt (engine answer) q u)) = 1 \<and>
   acquired (events (api_kpis rt (engine answer) q u)) = 2 \<and>
   acquired (events (api_metadata (engine answer) u)) = 4"
proof -
  have charts: "attempts (events (api_sales rt m q s)) = 1 \<and>
      attempts (events (api_products rt m q s)) = 1 \<and>
      attempts (events (api_regions rt m q s)) = 1 \<and>
      attempts (events (api_channels rt m q s)) = 1 \<and>
      attempts (events (api_tiers rt m q s)) = 1 \<and>
      released None (events (api_sales rt m q s)) \<and>
      released None (events (api_products rt m q s)) \<and>
      released None (events (api_regions rt m q s)) \<and>
      released None (events (api_channels rt m q s)) \<and>
      released None (events (api_tiers rt m q s))"
    by (simp only: api_sales_def api_products_def api_regions_def api_channels_def api_tiers_def
        chart_handler_connections simp_thms)
  have kpis2: "attempts (events (api_kpis rt m q s)) = 2"
    if "queryDatabase m (kpis_sql (fst (buildFilter q))) (snd (buildFilter q)) s = (Inr rows, evs, s1)"
    for rows evs s1
    using api_kpis_connections [of rt m q s] that
    by (simp split: prod.splits sum.splits)
  have kpis1: "attempts (events (api_kpis rt m q s)) = 1"
    if "queryDatabase m (kpis_sql (fst (buildFilter q))) (snd (buildFilter q)) s = (Inl err, evs, s1)"
    for err evs s1
    using api_kpis_connections [of rt m q s] that by simp
  have meta4: "attempts (events (api_metadata m s)) = 4"
    if "queryDatabase m metadata_regions_sql [] s = (Inr rows1, evs1, s1) \<and>
        queryDatabase m metadata_products_sql [] s1 = (Inr rows2, evs2, s2) \<and>
        queryDatabase m metadata_channels_sql [] s2 = (Inr rows3, evs3, s3)"
    for rows1 evs1 s1 rows2 evs2 s2 rows3 evs3 s3
    using api_metadata_connections [of m s] that
    by (simp split: prod.splits sum.splits)
  have up: "acquired (events (api_sales rt (engine answer) q u)) = 1"
    by (simp add: api_sales_def chart_handler_events queryDatabase_engine acquired_def)
  show ?thesis
    using charts kpis1 kpis2 meta4 up api_kpis_connections [of rt m q s]
      api_metadata_connections [of m s] api_kpis_engine_acquired [of rt answer q u]
      api_metadata_engine_acquired [of answer u]
    by blast
qed

lemma queryDatabase_one_shot_first:
  "queryDatabase (one_shot_engine rows) sql params 0 =
     (Inr rows, [Acquired 0, ConsoleLog (log_line sql), Executed 0 sql params, Ended 0], Suc 0)"
  by (simp add: queryDatabase_def one_shot_engine_def)

lemma queryDatabase_one_shot_later:
  "queryDatabase (one_shot_engine rows) sql params (Suc n) =
     (Inl failed_message,
      [AcquireFailed ''ER_CON_COUNT_ERROR'', ConsoleError (error_line ''ER_CON_COUNT_ERROR'')],
      Suc (Suc n))"
  by (simp add: queryDatabase_def one_shot_engine_def)

theorem connections_per_request_witness:
  "attempts (events (api_kpis numeric_runtime (one_shot_engine [totals_row]) Map.empty 0)) = 2 \<and>
   acquired (events (api_kpis numeric_runtime (one_shot_engine [totals_row]) Map.empty 0)) = 1 \<and>
   released None (events (api_kpis numeric_runtime (one_shot_engine [totals_row]) Map.empty 0)) \<and>
   attempts (events (api_metadata (one_shot_engine [totals_row]) 0)) = 2 \<and>
   acquired (events (api_sales numeric_runtime (engine example_answer) Map.empty ())) = 1 \<and>
   acquired (events (api_kpis numeric_runtime (engine example_answer) Map.empty ())) = 2 \<and>
   acquired (events (api_metadata (engine example_answer) ())) = 4"
proof -
  have first: "queryDatabase (one_shot_engine [totals_row]) (kpis_sql (fst (buildFilter Map.empty)))
      (snd (buildFilter Map.empty)) 0 =
      (Inr [totals_row],
       [Acquired 0, ConsoleLog (log_line (kpis_sql (fst (buildFilter Map.empty)))),
        Executed 0 (kpis_sql (fst (buildFilter Map.empty))) (snd (buildFilter Map.empty)), Ended 0],
       Suc 0)"
    by (rule queryDatabase_one_shot_first)
  have evs: "events (api_kpis numeric_runtime (one_shot_engine [totals_row]) Map.empty 0) =
      [Acquired 0, ConsoleLog (log_line (kpis_sql (fst (buildFilter Map.empty)))),
       Executed 0 (kpis_sql (fst (buildFilter Map.empty))) (snd (buildFilter Map.empty)), Ended 0,
       AcquireFailed ''ER_CON_COUNT_ERROR'', ConsoleError (error_line ''ER_CON_COUNT_ERROR'')]"
    by (simp add: api_kpis_def queryDatabase_one_shot_first queryDatabase_one_shot_later
        split: prod.splits)
  have acq: "acquired (events (api_kpis numeric_runtime (one_shot_engine [totals_row]) Map.empty 0)) = 1"
    unfolding evs by (simp add: acquired_def)
  have meta: "calls_made (one_shot_engine [totals_row])
      [(metadata_regions_sql, []), (metadata_products_sql, []), (metadata_channels_sql, []),
       (metadata_categories_sql, [])] 0 = 2"
    by (simp add: queryDatabase_one_shot_first queryDatabase_one_shot_later)
  from connections_per_request [of numeric_runtime "one_shot_engine [totals_row]" Map.empty 0
      example_answer "()"] first acq meta
  show ?thesis by simp
qed

text \<open>
  C4 as stated fails: with the database up, a request to \<^verbatim>\<open>/api/kpis\<close> acquires two
  connections, one for each of its statements.
\<close>

theorem one_connection_per_request_counterexample:
  "acquired (events (api_kpis numeric_runtime (engine example_answer) Map.empty ())) \<noteq> 1"
  by (simp add: api_kpis_engine_acquired)

section \<open>Properties of the chart endpoints\<close>

lemma chart_handler_engine:
  "fst (chart_handler statement rt (engine answer) q u) =
     chart_response rt (answer (statement (fst (buildFilter q))) (snd (buildFilter q)))"
  by (simp add: chart_handler_def queryDatabase_engine split: prod.splits)

lemma chart_handler_rows:
  assumes "createConnection m s = (Inr c, s1)"
    and "execute m c (statement (fst (buildFilter q))) (snd (buildFilter q)) s1 = (Inr rows, s2)"
  shows "fst (chart_handler statement rt m q s) = chart_response rt rows"
proof -
  obtain wc ps where bf: "buildFilter q = (wc, ps)"
    by (cases "buildFilter q")
  with assms have "execute m c (statement wc) ps s1 = (Inr rows, s2)"
    by simp
  with bf assms(1) show ?thesis
    by (simp add: chart_handler_def queryDatabase_def)
qed

lemma chart_endpoints_handler:
  "(handler, statement) \<in> set chart_endpoints \<Longrightarrow> handler = chart_handler statement"
  by (auto simp: chart_endpoints_def api_sales_def api_products_def api_regions_def
      api_channels_def api_tiers_def)

text \<open>
  C7. For every chart endpoint and every list of rows that its statement is answered
  with, the response body is \<^verbatim>\<open>{labels, data}\<close> with two arrays as long as the list of
  rows: \<open>labels[i]\<close> is the label field of row \<open>i\<close> and \<open>data[i]\<close> is \<^verbatim>\<open>parseFloat\<close> of
  its value field, in the order of the rows.
\<close>

theorem chart_endpoints_reshape:
  assumes "(handler, statement) \<in> set chart_endpoints"
    and "createConnection m s = (Inr c, s1)"
    and "execute m c (statement (fst (buildFilter q))) (snd (buildFilter q)) s1 = (Inr rows, s2)"
  shows "\<exists>labels data.
           fst (handler rt m q s) = Chart labels data \<and>
           length labels = length rows \<and> length data = length rows \<and>
           (\<forall>i < length rows.
              labels ! i = field (rows ! i) ''label'' \<and>
              data ! i = parseFloat rt (field (rows ! i) ''value''))"
proof -
  have "fst (handler rt m q s) = chart_response rt rows"
    using chart_endpoints_handler [OF assms(1)]
      chart_handler_rows [of m s c s1 statement q rows s2 rt, OF assms(2,3)] by simp
  then show ?thesis
    by (simp add: chart_response_def)
qed

theorem chart_endpoints_reshape_witness:
  "fst (api_regions numeric_runtime
          (engine (\<lambda>sql params. [[''label'' \<mapsto> Str ''North'', ''value'' \<mapsto> Number (Fin 4140)],
                                   [''label'' \<mapsto> Str ''East'', ''value'' \<mapsto> Number (Fin 300)]]))
          Map.empty ()) =
     Chart [Str ''North'', Str ''East''] [Fin 4140, Fin 300]"
proof -
  let ?rows = "[[''label'' \<mapsto> Str ''North'', ''value'' \<mapsto> Number (Fin 4140)],
                [''label'' \<mapsto> Str ''East'', ''value'' \<mapsto> Number (Fin 300)]]"
  let ?m = "engine (\<lambda>sql params. ?rows)"
  have mem: "(api_regions, regions_sql) \<in> set chart_endpoints"
    by (simp add: chart_endpoints_def)
  have conn: "createConnection ?m () = (Inr 0, ())"
    by (simp add: engine_def)
  have exec: "execute ?m 0 (regions_sql (fst (buildFilter Map.empty))) (snd (buildFilter Map.empty)) () =
      (Inr ?rows, ())"
    by (simp add: engine_def)
  from chart_endpoints_reshape [of api_regions regions_sql ?m "()" 0 "()" Map.empty ?rows "()"
      numeric_runtime, OF mem conn exec]
  obtain labels data where
    r: "fst (api_regions numeric_runtime ?m Map.empty ()) = Chart labels data"
    and l: "length labels = 2" "length data = 2"
    and e: "\<forall>i<2. labels ! i = field (?rows ! i) ''label'' \<and>
                  data ! i = parseFloat numeric_runtime (field (?rows ! i) ''value'')"
    by auto
  from e have "labels ! 0 = Str ''North''" "labels ! 1 = Str ''East''"
    "data ! 0 = Fin 4140" "data ! 1 = Fin 300"
    by (simp_all add: field_def numeric_runtime_def)
  with l have "labels = [Str ''North'', Str ''East'']" "data = [Fin 4140, Fin 300]"
    by (simp_all add: list_eq_iff_nth_eq less_Suc_eq numeral_2_eq_2)
  with r show ?thesis by simp
qed

section \<open>Requests without filters\<close>









section \<open>Properties of the database engine\<close>

lemma remdups_map_inj: "inj f \<Longrightarrow> remdups (map f xs) = map f (remdups xs)"
  by (induction xs) (auto simp: inj_image_mem_iff)

lemma insort_key_map: "insort_key k (h x) (map h ys) = map h (insort_key (\<lambda>y. k (h y)) x ys)"
  by (induction ys) simp_all

lemma sort_key_map: "sort_key k (map h xs) = map h (sort_key (\<lambda>y. k (h y)) xs)"
  by (induction xs) (simp_all add: insort_key_map)

lemma insort_key_equiv:
  assumes "\<And>a b. k a \<le> k b \<longleftrightarrow> k' a \<le> k' b"
  shows "insort_key k x ys = insort_key k' x ys"
  by (induction ys) (simp_all add: assms)

lemma sort_key_equiv:
  assumes "\<And>a b. k a \<le> k b \<longleftrightarrow> k' a \<le> k' b"
  shows "sort_key k xs = sort_key k' xs"
  by (induction xs) (simp_all add: insort_key_equiv [of k k', OF assms])

lemma queryDatabase_sql_engine:
  assumes "execute (sql_engine matches dec table) 0 sql params s = (Inr rows, s)"
  shows "queryDatabase (sql_engine matches dec table) sql params s =
           (Inr rows, [Acquired 0, ConsoleLog (log_line sql), Executed 0 sql params, Ended 0], s)"
proof -
  have "createConnection (sql_engine matches dec table) s = (Inr 0, s)"
    and "conn_end (sql_engine matches dec table) 0 s = s"
    by (simp_all add: sql_engine_def)
  with assms show ?thesis
    by (simp add: queryDatabase_def)
qed

lemma execute_sql_engine:
  assumes "parse_select (sql_tokens sql) = Some st" and "run matches table st params = Some outs"
  shows "execute (sql_engine matches dec table) c sql params s = (Inr (map (row_object dec) outs), s)"
  using assms by (simp add: sql_engine_def)

subsection \<open>The statements of the metadata endpoint\<close>



lemma value_key_equiv:
  "(1::nat, a::rat, []::string) \<le> (1, b, []) \<longleftrightarrow> a \<le> b"
  by (auto simp: less_eq_prod_def)

lemma run_stages:
  assumes "those (map text_column conds) = Some cols"
    and "those (map compile_item items) = Some outs"
    and "those (map (group_key items) names) = Some keys"
    and "(case ord of None \<Rightarrow> Some None | Some ob \<Rightarrow> map_option Some (order_key items ob)) = Some okey"
    and "length conds = length params"
  shows "run matches table (Select uniq items conds names ord cap) params =
           Some (map fst
             (limit_pairs cap
               (order_pairs okey
                 (distinct_pairs uniq
                   (output_pairs outs
                     (group_rows (names \<noteq> []) (list_ex (\<lambda>item. is_aggregate (fst item)) items)
                        keys
                        (where_rows matches cols params table)))))))"
  using assms by (simp add: run_def)





section \<open>Properties of the metadata endpoint\<close>



section \<open>Filtered statements on the database engine\<close>

subsection \<open>The clause written by the filter builder\<close>

lemmas lexer_defs = is_space_def is_sym_def flush_def nl_def

lemmas parser_defs = parse_select_def parse_item_def parse_expr_def reserved_words_def
  parse_where_def parse_group_def parse_order_def parse_limit_def decimal_def digit_value_def

lemma lex_where:
  "lex_from [] False (fst (buildFilter q) @ rest) =
     where_tokens (selected_columns q) @ lex_from [] False rest"
  by (cases "selected (q ''region'')"; cases "selected (q ''product'')";
      cases "selected (q ''channel'')"; cases "selected (q ''category'')")
     (simp_all add: buildFilter_filters selected_fragments_unfold selected_columns_def
       where_tokens_def lexer_defs)

lemma where_columns:
  "\<exists>cols. those (map text_column (selected_columns q)) = Some cols \<and>
     length (selected_columns q) = length (selected_params q) \<and>
     (\<forall>r. list_all2 (\<lambda>f p. matches (f r) p) cols (selected_params q) \<longleftrightarrow> query_keeps matches q r)"
  by (cases "selected (q ''region'')"; cases "selected (q ''product'')";
      cases "selected (q ''channel'')"; cases "selected (q ''category'')")
     (auto simp: selected_columns_def selected_params_unfold text_column_def query_keeps_def
       selected_def split: option.splits)

lemma where_rows_query:
  obtains cols where "those (map text_column (selected_columns q)) = Some cols"
    and "length (selected_columns q) = length (selected_params q)"
    and "where_rows matches cols (selected_params q) table = filter (query_keeps matches q) table"
proof -
  obtain cols where "those (map text_column (selected_columns q)) = Some cols"
    and "length (selected_columns q) = length (selected_params q)"
    and "\<And>r. list_all2 (\<lambda>f p. matches (f r) p) cols (selected_params q) \<longleftrightarrow> query_keeps matches q r"
    using where_columns [of q matches] by blast
  then show ?thesis
    using that by (simp add: where_rows_def)
qed

subsection \<open>Statements that sum the revenue of groups\<close>

lemma group_rows_text:
  fixes f :: "sale \<Rightarrow> string"
  shows "group_rows True aggregated [\<lambda>r. CText (f r)] kept =
           map (\<lambda>p. filter (\<lambda>r. f r = p) kept) (remdups (map f kept))"
proof -
  have inj: "inj (\<lambda>p. [CText p])"
    by (simp add: inj_def)
  have "remdups (map (\<lambda>r. [CText (f r)]) kept) = map (\<lambda>p. [CText p]) (remdups (map f kept))"
    using remdups_map_inj [OF inj, of "map f kept"] by (simp add: comp_def)
  then show ?thesis
    by (simp add: group_rows_def comp_def)
qed

lemma first_row_group:
  fixes f :: "sale \<Rightarrow> string"
  assumes "p \<in> set (map f kept)"
  shows "filter (\<lambda>r. f r = p) kept \<noteq> [] \<and>
         first_row (\<lambda>r. CText (f r)) (filter (\<lambda>r. f r = p) kept) = CText p"
proof -
  from assms obtain r where "r \<in> set kept" and "p = f r"
    by auto
  then have ne: "filter (\<lambda>r. f r = p) kept \<noteq> []"
    by (auto simp: filter_empty_conv)
  then obtain y ys where g: "filter (\<lambda>r. f r = p) kept = y # ys"
    by (cases "filter (\<lambda>r. f r = p) kept") auto
  then have "y \<in> set (filter (\<lambda>r. f r = p) kept)"
    by simp
  then have "f y = p"
    by simp
  with g show ?thesis
    by (simp add: first_row_def)
qed

lemma output_pairs_sums:
  fixes f :: "sale \<Rightarrow> string"
  shows "output_pairs
           [(lab, first_row (\<lambda>r. CText (f r))),
            (val, \<lambda>g. if g = [] then CNull else CDec (sum_list (map revenue g)))]
           (map (\<lambda>p. filter (\<lambda>r. f r = p) kept) (remdups (map f kept))) =
         map (\<lambda>pv. ([(lab, CText (fst pv)), (val, CDec (snd pv))], filter (\<lambda>r. f r = fst pv) kept))
           (group_sum f kept)"
  unfolding output_pairs_def group_sum_def
  by (simp add: comp_def first_row_group)


lemma order_by_label:
  shows "order_pairs (Some (\<lambda>(out, g). cell_key (named_cell lab out), desc))
           (map (\<lambda>pv. ([(lab, CText (fst pv)), (val, CDec (snd pv))], G pv)) xs) =
         map (\<lambda>pv. ([(lab, CText (fst pv)), (val, CDec (snd pv))], G pv))
           (if desc then rev (sort_key fst xs) else sort_key fst xs)"
proof -
  have "sort_key (\<lambda>pv. cell_key (named_cell lab [(lab, CText (fst pv)), (val, CDec (snd pv))])) xs =
      sort_key fst xs"
    by (rule sort_key_equiv) (auto simp: cell_key_def named_cell_def)
  then show ?thesis
    by (simp add: order_pairs_def sort_key_map rev_map)
qed

subsection \<open>The statement of the products endpoint\<close>





section \<open>Properties of the products endpoint\<close>











section \<open>Properties of the growth figure\<close>

lemma growth_of_first_last:
  "growth_of rt rows =
     (if 2 \<le> length rows \<and> num_gt (toNumber rt (field (hd rows) ''monthly_revenue'')) (Fin 0)
      then pct_change rt (field (hd rows) ''monthly_revenue'') (field (last rows) ''monthly_revenue'')
      else Fin 0)"
proof (cases "2 \<le> length rows")
  case True
  then have ne: "rows \<noteq> []" by auto
  have "rows ! 0 = hd rows" and "rows ! (length rows - 1) = last rows"
    using ne by (simp_all add: hd_conv_nth last_conv_nth)
  then show ?thesis
    using True by (simp add: growth_of_def Let_def pct_change_def)
next
  case False
  then show ?thesis by (simp add: growth_of_def)
qed

lemma kpis_growth_sql_differ: "kpis_sql wc \<noteq> growth_sql wc'"
  by (simp add: kpis_sql_def growth_sql_def nl_def)

lemma show_nat_digit: "n < 10 \<Longrightarrow> show_nat n = [''0123456789'' ! n]"
  by (simp add: show_nat.simps)

lemma floor_halves:
  "\<lfloor>4001 / 2 :: rat\<rfloor> = 2000" "\<lfloor>1001 / 2 :: rat\<rfloor> = 500" "\<lfloor>2001 / 2 :: rat\<rfloor> = 1000"
  "\<lfloor>501 / 2 :: rat\<rfloor> = 250"
  by (simp_all add: floor_eq_iff)

lemma print_fixed_whole:
  "print_fixed 200 1 = ''200.0''" "print_fixed 50 1 = ''50.0''" "print_fixed 100 1 = ''100.0''"
  "print_fixed 25 1 = ''25.0''"
  by (simp_all add: print_fixed_def floor_halves Let_def
      show_nat.simps [of 200] show_nat.simps [of 20] show_nat.simps [of 50] show_nat.simps [of 100]
      show_nat.simps [of 10] show_nat.simps [of 25] show_nat_digit)

lemma read_decimal_whole:
  "read_decimal ''200.0'' = Fin 200" "read_decimal ''50.0'' = Fin 50"
  "read_decimal ''100.0'' = Fin 100" "read_decimal ''25.0'' = Fin 25"
  by (simp_all add: read_decimal_def decimal_def digit_value_def Let_def)

lemma numeric_runtime_whole:
  "parseFloat numeric_runtime (Str (toFixed numeric_runtime (Fin 200) (Suc 0))) = Fin 200"
  "parseFloat numeric_runtime (Str (toFixed numeric_runtime (Fin 50) (Suc 0))) = Fin 50"
  "parseFloat numeric_runtime (Str (toFixed numeric_runtime (Fin 100) (Suc 0))) = Fin 100"
  "parseFloat numeric_runtime (Str (toFixed numeric_runtime (Fin 25) (Suc 0))) = Fin 25"
  using print_fixed_whole by (simp_all add: numeric_runtime_def read_decimal_whole)

lemma pct_change_examples:
  "pct_change numeric_runtime (Number (Fin 100)) (Number (Fin 300)) = Fin 200"
  "pct_change numeric_runtime (Number (Fin 100)) (Number (Fin 150)) = Fin 50"
  "pct_change numeric_runtime (Number (Fin 150)) (Number (Fin 300)) = Fin 100"
  "pct_change numeric_runtime (Number (Fin 1200)) (Number (Fin 1500)) = Fin 25"
proof -
  have ops: "float_sub numeric_runtime = exact_sub" "float_div numeric_runtime = exact_div"
    "float_mul numeric_runtime = exact_mul"
    by (simp_all add: numeric_runtime_def)
  show "pct_change numeric_runtime (Number (Fin 100)) (Number (Fin 300)) = Fin 200"
    "pct_change numeric_runtime (Number (Fin 100)) (Number (Fin 150)) = Fin 50"
    "pct_change numeric_runtime (Number (Fin 150)) (Number (Fin 300)) = Fin 100"
    "pct_change numeric_runtime (Number (Fin 1200)) (Number (Fin 1500)) = Fin 25"
    by (simp_all add: pct_change_def toNumber_def ops numeric_runtime_whole)
qed

lemma growth_of_three_months: "growth_of numeric_runtime three_months = Fin 200"
  by (simp add: growth_of_first_last three_months_def field_def toNumber_def pct_change_examples)

lemma spec_mom_three_months:
  "spec_month_over_month numeric_runtime three_months = [Fin 50, Fin 100]"
  by (simp add: spec_month_over_month_def three_months_def field_def pct_change_examples)

lemma buildFilter_empty: "buildFilter Map.empty = ([], [])"
  by (simp add: buildFilter_def push_filter_def)

lemma api_kpis_engine:
  assumes "answer (kpis_sql (fst (buildFilter q))) (snd (buildFilter q)) = kpis # rest"
    and "answer (growth_sql (fst (buildFilter q))) (snd (buildFilter q)) = growthResults"
  shows "growth_figure (fst (api_kpis rt (engine answer) q u)) =
           Some (Number (growth_of rt growthResults))"
proof -
  obtain wc ps where bf: "buildFilter q = (wc, ps)"
    by (cases "buildFilter q")
  with assms have "answer (kpis_sql wc) ps = kpis # rest" and "answer (growth_sql wc) ps = growthResults"
    by simp_all
  with bf show ?thesis
    by (simp add: api_kpis_def queryDatabase_engine Let_def growth_figure_def)
qed

lemma example_answer_kpis: "example_answer (kpis_sql []) [] = [totals_row]"
  by (simp add: example_answer_def kpis_growth_sql_differ)

lemma example_answer_growth: "example_answer (growth_sql []) [] = three_months"
  by (simp add: example_answer_def)

subsection \<open>The statements of the KPI endpoint\<close>

lemma tokens_kpis:
  "sql_tokens (kpis_sql (fst (buildFilter q))) =
     [Word ''SELECT'', Word ''SUM'', Sym (CHR ''(''), Word ''revenue'', Sym (CHR '')''), Word ''AS'',
      Word ''revenue'', Sym (CHR '',''),
      Word ''COUNT'', Sym (CHR ''(''), Word ''order_id'', Sym (CHR '')''), Word ''AS'', Word ''orders'',
      Sym (CHR '',''),
      Word ''COUNT'', Sym (CHR ''(''), Word ''DISTINCT'', Word ''customer_id'', Sym (CHR '')''),
      Word ''AS'', Word ''customers'', Word ''FROM'', Word ''sales_data''] @
     where_tokens (selected_columns q) @ [Sym (CHR '';'')]"
  by (simp add: kpis_sql_def sql_tokens_def lex_where lexer_defs)

lemma parse_kpis:
  "parse_select (sql_tokens (kpis_sql (fst (buildFilter q)))) =
     Some (Select False
       [(SumOf ''revenue'', ''revenue''), (CountOf ''order_id'', ''orders''),
        (CountDistinctOf ''customer_id'', ''customers'')]
       (selected_columns q) [] None None)"
  unfolding tokens_kpis
  by (cases "selected (q ''region'')"; cases "selected (q ''product'')";
      cases "selected (q ''channel'')"; cases "selected (q ''category'')")
     (simp_all add: selected_columns_def where_tokens_def parser_defs)

lemma run_kpis:
  "\<exists>totals. run matches table
     (Select False
       [(SumOf ''revenue'', ''revenue''), (CountOf ''order_id'', ''orders''),
        (CountDistinctOf ''customer_id'', ''customers'')]
       (selected_columns q) [] None None)
     (selected_params q) = Some [totals]"
proof -
  obtain cols where c: "those (map text_column (selected_columns q)) = Some cols"
    and l: "length (selected_columns q) = length (selected_params q)"
    and w: "where_rows matches cols (selected_params q) table = filter (query_keeps matches q) table"
    by (rule where_rows_query)
  define outs :: "(string \<times> (sale list \<Rightarrow> cell)) list" where
    "outs = [(''revenue'', \<lambda>g. if g = [] then CNull else CDec (sum_list (map revenue g))),
             (''orders'', \<lambda>g. CInt (int (length g))),
             (''customers'', \<lambda>g. CInt (int (length (remdups (map (\<lambda>r. CInt (int (customer_id r))) g)))))]"
  have o: "those (map compile_item
       [(SumOf ''revenue'', ''revenue''), (CountOf ''order_id'', ''orders''),
        (CountDistinctOf ''customer_id'', ''customers'')]) = Some outs"
    by (simp add: outs_def compile_item_def compile_expr_def column_def text_column_def
        numeric_column_def)
  have "run matches table
     (Select False
       [(SumOf ''revenue'', ''revenue''), (CountOf ''order_id'', ''orders''),
        (CountDistinctOf ''customer_id'', ''customers'')]
       (selected_columns q) [] None None)
     (selected_params q) =
     Some (map fst
       (limit_pairs None
         (order_pairs None
           (distinct_pairs False
             (output_pairs outs
                (group_rows ([] \<noteq> ([]::string list))
                   (list_ex (\<lambda>item. is_aggregate (fst item))
                      [(SumOf ''revenue'', ''revenue''), (CountOf ''order_id'', ''orders''),
                       (CountDistinctOf ''customer_id'', ''customers'')])
                   []
                   (where_rows matches cols (selected_params q) table)))))))"
    by (rule run_stages [OF c o _ _ l]) simp_all
  then show ?thesis
    by (simp add: limit_pairs_def order_pairs_def distinct_pairs_def output_pairs_def
        group_rows_def is_aggregate_def)
qed

lemma execute_kpis:
  "\<exists>kpis. execute (sql_engine matches dec table) n (kpis_sql (fst (buildFilter q)))
     (snd (buildFilter q)) s = (Inr [kpis], s)"
proof -
  obtain totals where "run matches table
     (Select False
       [(SumOf ''revenue'', ''revenue''), (CountOf ''order_id'', ''orders''),
        (CountDistinctOf ''customer_id'', ''customers'')]
       (selected_columns q) [] None None)
     (snd (buildFilter q)) = Some [totals]"
    unfolding buildFilter_params using run_kpis by blast
  from execute_sql_engine [OF parse_kpis this, where dec = dec and c = n and s = s]
  show ?thesis by simp
qed

lemma tokens_growth:
  "sql_tokens (growth_sql (fst (buildFilter q))) =
     [Word ''SELECT'', Word ''DATE_FORMAT'', Sym (CHR ''(''), Word ''order_date'', Sym (CHR '',''),
      Quoted ''%Y-%m'', Sym (CHR '')''), Word ''AS'', Word ''month_year'', Sym (CHR '',''),
      Word ''SUM'', Sym (CHR ''(''), Word ''revenue'', Sym (CHR '')''), Word ''AS'',
      Word ''monthly_revenue'', Word ''FROM'', Word ''sales_data''] @
     where_tokens (selected_columns q) @
     [Word ''GROUP'', Word ''BY'', Word ''month_year'', Word ''ORDER'', Word ''BY'',
      Word ''month_year'', Word ''ASC'', Sym (CHR '';'')]"
  by (simp add: growth_sql_def sql_tokens_def lex_where lexer_defs)

lemma parse_growth:
  "parse_select (sql_tokens (growth_sql (fst (buildFilter q)))) =
     Some (Select False
       [(DateFormat ''order_date'' ''%Y-%m'', ''month_year''), (SumOf ''revenue'', ''monthly_revenue'')]
       (selected_columns q) [''month_year''] (Some (ByName ''month_year'' False)) None)"
  unfolding tokens_growth
  by (cases "selected (q ''region'')"; cases "selected (q ''product'')";
      cases "selected (q ''channel'')"; cases "selected (q ''category'')")
     (simp_all add: selected_columns_def where_tokens_def parser_defs)

lemma sorted_group_sum:
  "sort_key fst (group_sum f kept) =
     map (\<lambda>m. (m, sum_list (map revenue (filter (\<lambda>r. f r = m) kept)))) (sort (remdups (map f kept)))"
  by (simp add: group_sum_def sort_key_map)

lemma run_growth:
  "run matches table
     (Select False
       [(DateFormat ''order_date'' ''%Y-%m'', ''month_year''), (SumOf ''revenue'', ''monthly_revenue'')]
       (selected_columns q) [''month_year''] (Some (ByName ''month_year'' False)) None)
     (selected_params q) =
   Some (map (\<lambda>m. [(''month_year'', CText m),
                    (''monthly_revenue'', CDec (month_revenue matches q table m))])
          (filtered_months matches q table))"
proof -
  obtain cols where c: "those (map text_column (selected_columns q)) = Some cols"
    and l: "length (selected_columns q) = length (selected_params q)"
    and w: "where_rows matches cols (selected_params q) table = filter (query_keeps matches q) table"
    by (rule where_rows_query)
  have "run matches table
     (Select False
       [(DateFormat ''order_date'' ''%Y-%m'', ''month_year''), (SumOf ''revenue'', ''monthly_revenue'')]
       (selected_columns q) [''month_year''] (Some (ByName ''month_year'' False)) None)
     (selected_params q) =
     Some (map fst
       (limit_pairs None
         (order_pairs (Some (\<lambda>(out, g). cell_key (named_cell ''month_year'' out), False))
           (distinct_pairs False
             (output_pairs
                [(''month_year'', first_row (\<lambda>r. CText (month_of r))),
                 (''monthly_revenue'', \<lambda>g. if g = [] then CNull else CDec (sum_list (map revenue g)))]
                (group_rows ([''month_year''] \<noteq> [])
                   (list_ex (\<lambda>item. is_aggregate (fst item))
                      [(DateFormat ''order_date'' ''%Y-%m'', ''month_year''),
                       (SumOf ''revenue'', ''monthly_revenue'')])
                   [\<lambda>r. CText (month_of r)]
                   (where_rows matches cols (selected_params q) table)))))))"
    by (rule run_stages)
       (simp_all add: c l compile_item_def compile_expr_def column_def text_column_def
         numeric_column_def order_key_def group_key_def date_format_def is_aggregate_def
         first_row_def month_of_def)
  then have "run matches table
     (Select False
       [(DateFormat ''order_date'' ''%Y-%m'', ''month_year''), (SumOf ''revenue'', ''monthly_revenue'')]
       (selected_columns q) [''month_year''] (Some (ByName ''month_year'' False)) None)
     (selected_params q) =
     Some (map fst
       (limit_pairs None
         (order_pairs (Some (\<lambda>(out, g). cell_key (named_cell ''month_year'' out), False))
           (distinct_pairs False
             (output_pairs
                [(''month_year'', first_row (\<lambda>r. CText (month_of r))),
                 (''monthly_revenue'', \<lambda>g. if g = [] then CNull else CDec (sum_list (map revenue g)))]
                (group_rows True True [\<lambda>r. CText (month_of r)]
                   (filter (query_keeps matches q) table)))))))"
    by (simp add: w is_aggregate_def)
  also have "\<dots> = Some (map (\<lambda>m. [(''month_year'', CText m),
                    (''monthly_revenue'', CDec (month_revenue matches q table m))])
          (filtered_months matches q table))"
    unfolding group_rows_text output_pairs_sums distinct_pairs_def if_False
    by (simp add: order_by_label limit_pairs_def comp_def sorted_group_sum filtered_months_def
        month_revenue_def)
  finally show ?thesis .
qed

lemma execute_growth:
  "execute (sql_engine matches dec table) n (growth_sql (fst (buildFilter q)))
     (snd (buildFilter q)) s =
   (Inr (map (\<lambda>m. map_of [(''month_year'', Str m),
                          (''monthly_revenue'', dec (month_revenue matches q table m))])
          (filtered_months matches q table)), s)"
proof -
  have "run matches table
     (Select False
       [(DateFormat ''order_date'' ''%Y-%m'', ''month_year''), (SumOf ''revenue'', ''monthly_revenue'')]
       (selected_columns q) [''month_year''] (Some (ByName ''month_year'' False)) None)
     (snd (buildFilter q)) =
     Some (map (\<lambda>m. [(''month_year'', CText m),
                    (''monthly_revenue'', CDec (month_revenue matches q table m))])
          (filtered_months matches q table))"
    unfolding buildFilter_params by (rule run_growth)
  from execute_sql_engine [OF parse_growth this, where dec = dec and c = n and s = s]
  show ?thesis
    by (simp add: row_object_def deliver_def comp_def del: map_of.simps)
qed

lemma api_kpis_sql_engine:
  "growth_figure (fst (api_kpis rt (sql_engine matches dec table) q u)) =
     Some (Number (growth_of rt
       (map (\<lambda>m. map_of [(''month_year'', Str m),
                         (''monthly_revenue'', dec (month_revenue matches q table m))])
          (filtered_months matches q table))))"
proof -
  obtain wc ps where bf: "buildFilter q = (wc, ps)"
    by (cases "buildFilter q")
  obtain kpis where k: "execute (sql_engine matches dec table) 0 (kpis_sql wc) ps u = (Inr [kpis], u)"
    using execute_kpis [of matches dec table 0 q u] bf by auto
  have g: "execute (sql_engine matches dec table) 0 (growth_sql wc) ps u =
      (Inr (map (\<lambda>m. map_of [(''month_year'', Str m),
                             (''monthly_revenue'', dec (month_revenue matches q table m))])
              (filtered_months matches q table)), u)"
    using execute_growth [of matches dec table 0 q u] bf by simp
  have "fst (api_kpis rt (sql_engine matches dec table) q u) =
      Kpis (kpis ++
        [''growth'' \<mapsto> Number (growth_of rt
           (map (\<lambda>m. map_of [(''month_year'', Str m),
                             (''monthly_revenue'', dec (month_revenue matches q table m))])
              (filtered_months matches q table))),
         ''revenue'' \<mapsto> Number (parseFloat rt (js_or (field kpis ''revenue'') (Number (Fin 0)))),
         ''customers'' \<mapsto> Number (parseInt rt (js_or (field kpis ''customers'') (Number (Fin 0)))),
         ''orders'' \<mapsto> Number (parseInt rt (js_or (field kpis ''orders'') (Number (Fin 0))))])"
    unfolding api_kpis_def bf prod.case queryDatabase_sql_engine [OF k]
      queryDatabase_sql_engine [OF g] sum.case Let_def list.case fst_conv
    by (rule refl)
  then show ?thesis
    by (simp add: growth_figure_def del: map_of.simps)
qed

lemma filtered_months_ends:
  assumes "m \<in> set (filtered_months matches q table)"
  shows "hd (filtered_months matches q table) \<le> m \<and> m \<le> last (filtered_months matches q table)"
proof -
  let ?ms = "filtered_months matches q table"
  have s: "sorted ?ms"
    by (simp add: filtered_months_def)
  from assms obtain i where i: "i < length ?ms" and m: "m = ?ms ! i"
    by (auto simp: in_set_conv_nth)
  then have ne: "?ms \<noteq> []"
    by auto
  have "?ms ! 0 \<le> ?ms ! i"
    using s i by (simp add: sorted_iff_nth_mono)
  moreover have "?ms ! i \<le> ?ms ! (length ?ms - 1)"
    using s i by (intro sorted_nth_mono) auto
  ultimately show ?thesis
    using ne m by (simp add: hd_conv_nth last_conv_nth)
qed

text \<open>
  C2 (amended). On every table and for every request, the growth figure returned by
  \<^verbatim>\<open>/api/kpis\<close> is the percentage change in monthly revenue from the earliest month to the
  latest month of the filtered data set, whatever lies between them, computed as line 114
  does in the runtime's arithmetic, \<^verbatim>\<open>parseFloat((((last - first) / first) * 100).toFixed(1))\<close>;
  it is 0 when the filtered data set has fewer than two months or the revenue of the
  earliest month is not greater than 0. The statements are evaluated by the engine
  modelled above, from their text.
\<close>

theorem kpis_growth_first_to_last:
  "growth_figure (fst (api_kpis rt (sql_engine matches dec table) q u)) =
     Some (Number
       (if 2 \<le> length (filtered_months matches q table) \<and>
           num_gt (toNumber rt (dec (month_revenue matches q table
                     (hd (filtered_months matches q table))))) (Fin 0)
        then pct_change rt
               (dec (month_revenue matches q table (hd (filtered_months matches q table))))
               (dec (month_revenue matches q table (last (filtered_months matches q table))))
        else Fin 0)) \<and>
   set (filtered_months matches q table) = month_of ` {r \<in> set table. query_keeps matches q r} \<and>
   distinct (filtered_months matches q table) \<and>
   (\<forall>m \<in> set (filtered_months matches q table).
      hd (filtered_months matches q table) \<le> m \<and> m \<le> last (filtered_months matches q table))"
proof -
  let ?ms = "filtered_months matches q table"
  let ?row = "\<lambda>m. map_of [(''month_year'', Str m),
      (''monthly_revenue'', dec (month_revenue matches q table m))]"
  have first: "field (hd (map ?row ?ms)) ''monthly_revenue'' = dec (month_revenue matches q table (hd ?ms))"
    and last: "field (last (map ?row ?ms)) ''monthly_revenue'' =
      dec (month_revenue matches q table (last ?ms))"
    if "2 \<le> length ?ms"
  proof -
    from that have "?ms \<noteq> []" by auto
    then show "field (hd (map ?row ?ms)) ''monthly_revenue'' =
        dec (month_revenue matches q table (hd ?ms))"
      and "field (last (map ?row ?ms)) ''monthly_revenue'' =
        dec (month_revenue matches q table (last ?ms))"
      by (simp_all add: hd_map last_map field_def)
  qed
  have "growth_of rt (map ?row ?ms) =
      (if 2 \<le> length ?ms \<and> num_gt (toNumber rt (dec (month_revenue matches q table (hd ?ms)))) (Fin 0)
       then pct_change rt (dec (month_revenue matches q table (hd ?ms)))
              (dec (month_revenue matches q table (last ?ms)))
       else Fin 0)"
    unfolding growth_of_first_last using first last by auto
  moreover have "set ?ms = month_of ` {r \<in> set table. query_keeps matches q r}"
    and "distinct ?ms"
    by (auto simp: filtered_months_def)
  ultimately show ?thesis
    using api_kpis_sql_engine [of rt matches dec table q u] filtered_months_ends [of _ matches q table]
    by simp
qed

theorem kpis_growth_first_to_last_witness:
  "growth_figure (fst (api_kpis numeric_runtime
       (sql_engine text_equals (\<lambda>v. Number (Fin v)) example_sales)
       [''region'' \<mapsto> QStr ''North''] ())) = Some (Number (Fin 25)) \<and>
   filtered_months text_equals [''region'' \<mapsto> QStr ''North''] example_sales =
     [''2024-01'', ''2024-02'', ''2024-03'']"
proof -
  have keeps: "filter (query_keeps text_equals [''region'' \<mapsto> QStr ''North'']) example_sales =
      filter (\<lambda>r. region r = ''North'') example_sales"
    by (rule filter_cong) (auto simp: query_keeps_def selected_def text_equals_def)
  have months: "filtered_months text_equals [''region'' \<mapsto> QStr ''North''] example_sales =
      [''2024-01'', ''2024-02'', ''2024-03'']"
    unfolding filtered_months_def keeps
    by (simp add: example_sales_def month_of_def)
  have first: "month_revenue text_equals [''region'' \<mapsto> QStr ''North''] example_sales ''2024-01'' = 1200"
    and last: "month_revenue text_equals [''region'' \<mapsto> QStr ''North''] example_sales ''2024-03'' = 1500"
    unfolding month_revenue_def keeps
    by (simp_all add: example_sales_def month_of_def)
  from kpis_growth_first_to_last [of numeric_runtime text_equals "\<lambda>v. Number (Fin v)" example_sales
      "[''region'' \<mapsto> QStr ''North'']" "()"]
  show ?thesis
    by (simp add: months first last toNumber_def pct_change_examples)
qed

text \<open>
  C2 as stated fails: for monthly revenues 100, 150 and 300 the changes from a month to
  the following month are 50 and 100 percent, and the growth figure is 200.
\<close>

theorem growth_month_over_month_counterexample:
  "growth_figure (fst (api_kpis numeric_runtime (engine example_answer) Map.empty ())) =
     Some (Number (Fin 200)) \<and>
   Fin 200 \<notin> set (spec_month_over_month numeric_runtime three_months)"
proof -
  have "example_answer (kpis_sql (fst (buildFilter Map.empty))) (snd (buildFilter Map.empty)) =
      totals_row # []"
    by (simp add: buildFilter_empty example_answer_kpis)
  moreover have "example_answer (growth_sql (fst (buildFilter Map.empty))) (snd (buildFilter Map.empty)) =
      three_months"
    by (simp add: buildFilter_empty example_answer_growth)
  ultimately have "growth_figure (fst (api_kpis numeric_runtime (engine example_answer) Map.empty ())) =
      Some (Number (growth_of numeric_runtime three_months))"
    by (rule api_kpis_engine [of example_answer Map.empty totals_row "[]" three_months])
  then show ?thesis
    by (simp add: growth_of_three_months spec_mom_three_months)
qed

end
